theory Spec2Isabelle
  imports Complex_Main "HOL-Library.Word" "HOL-Library.Multiset"
begin

section \<open>JavaScript values used by server.js\<close>

subsection \<open>Strings\<close>

text \<open>
  A JavaScript string is a sequence of UTF-16 code units; \<^verbatim>\<open>charCodeAt\<close> reads one of
  them, a number below 65536. \<open>str\<close> writes the string literals of the source.
\<close>

type_synonym jsstring = "16 word list"

definition str :: "string \<Rightarrow> jsstring" where
  "str s = map of_char s"

text \<open>
  \<^verbatim>\<open>String.prototype.trim\<close> removes the code units of WhiteSpace and LineTerminator from
  both ends: TAB, LF, VT, FF, CR, SP, NBSP, U+1680, U+2000..U+200A, LS, PS, U+202F, U+205F,
  U+3000 and the byte order mark U+FEFF.
\<close>

definition isWhiteSpace :: "16 word \<Rightarrow> bool" where
  "isWhiteSpace c =
     (let n = unat c in
        (9 \<le> n \<and> n \<le> 13) \<or> n = 32 \<or> n = 160 \<or> n = 5760 \<or> (8192 \<le> n \<and> n \<le> 8202)
        \<or> n = 8232 \<or> n = 8233 \<or> n = 8239 \<or> n = 8287 \<or> n = 12288 \<or> n = 65279)"

definition trim :: "jsstring \<Rightarrow> jsstring" where
  "trim s = rev (dropWhile isWhiteSpace (rev (dropWhile isWhiteSpace s)))"

subsection \<open>Numbers\<close>

text \<open>
  A JavaScript number is NaN, an infinity or a finite double. Finite values are kept as
  the rationals they stand for: the rounding of an arithmetic result to the nearest double
  is not part of the model, and neither is the sign of zero.
\<close>

datatype jsnum = NaN | NegInf | Fin rat | PosInf

text \<open>The relational operators: every comparison with NaN is false.\<close>

fun js_le :: "jsnum \<Rightarrow> jsnum \<Rightarrow> bool" where
  "js_le NaN _ = False"
| "js_le _ NaN = False"
| "js_le NegInf _ = True"
| "js_le _ PosInf = True"
| "js_le (Fin a) (Fin b) = (a \<le> b)"
| "js_le (Fin a) NegInf = False"
| "js_le PosInf (Fin b) = False"
| "js_le PosInf NegInf = False"

definition js_ge :: "jsnum \<Rightarrow> jsnum \<Rightarrow> bool" where
  "js_ge a b = js_le b a"

definition js_lt :: "jsnum \<Rightarrow> jsnum \<Rightarrow> bool" where
  "js_lt a b = (js_le a b \<and> a \<noteq> b)"

text \<open>\<^verbatim>\<open>Math.min\<close> and \<^verbatim>\<open>Math.max\<close> of two arguments: NaN as soon as one argument is NaN.\<close>

definition Math_min :: "jsnum \<Rightarrow> jsnum \<Rightarrow> jsnum" where
  "Math_min a b = (if a = NaN \<or> b = NaN then NaN else if js_le a b then a else b)"

definition Math_max :: "jsnum \<Rightarrow> jsnum \<Rightarrow> jsnum" where
  "Math_max a b = (if a = NaN \<or> b = NaN then NaN else if js_le a b then b else a)"

text \<open>The arithmetic operators \<^verbatim>\<open>+\<close>, \<^verbatim>\<open>-\<close>, \<^verbatim>\<open>*\<close> and \<^verbatim>\<open>/\<close> on numbers.\<close>

fun js_neg :: "jsnum \<Rightarrow> jsnum" where
  "js_neg NaN = NaN"
| "js_neg NegInf = PosInf"
| "js_neg PosInf = NegInf"
| "js_neg (Fin a) = Fin (- a)"

fun js_add :: "jsnum \<Rightarrow> jsnum \<Rightarrow> jsnum" where
  "js_add NaN _ = NaN"
| "js_add _ NaN = NaN"
| "js_add PosInf NegInf = NaN"
| "js_add NegInf PosInf = NaN"
| "js_add PosInf _ = PosInf"
| "js_add _ PosInf = PosInf"
| "js_add NegInf _ = NegInf"
| "js_add _ NegInf = NegInf"
| "js_add (Fin a) (Fin b) = Fin (a + b)"

definition js_sub :: "jsnum \<Rightarrow> jsnum \<Rightarrow> jsnum" where
  "js_sub a b = js_add a (js_neg b)"

fun js_mul :: "jsnum \<Rightarrow> jsnum \<Rightarrow> jsnum" where
  "js_mul NaN _ = NaN"
| "js_mul _ NaN = NaN"
| "js_mul (Fin a) (Fin b) = Fin (a * b)"
| "js_mul (Fin a) PosInf = (if a = 0 then NaN else if 0 < a then PosInf else NegInf)"
| "js_mul (Fin a) NegInf = (if a = 0 then NaN else if 0 < a then NegInf else PosInf)"
| "js_mul PosInf (Fin b) = (if b = 0 then NaN else if 0 < b then PosInf else NegInf)"
| "js_mul NegInf (Fin b) = (if b = 0 then NaN else if 0 < b then NegInf else PosInf)"
| "js_mul PosInf PosInf = PosInf"
| "js_mul NegInf NegInf = PosInf"
| "js_mul PosInf NegInf = NegInf"
| "js_mul NegInf PosInf = NegInf"

fun js_div :: "jsnum \<Rightarrow> jsnum \<Rightarrow> jsnum" where
  "js_div NaN _ = NaN"
| "js_div _ NaN = NaN"
| "js_div (Fin a) (Fin b) =
     (if b = 0 then (if a = 0 then NaN else if 0 < a then PosInf else NegInf)
      else Fin (a / b))"
| "js_div (Fin a) _ = Fin 0"
| "js_div PosInf (Fin b) = (if 0 \<le> b then PosInf else NegInf)"
| "js_div NegInf (Fin b) = (if 0 \<le> b then NegInf else PosInf)"
| "js_div _ _ = NaN"

text \<open>
  \<^verbatim>\<open>Number(x.toFixed(2))\<close>. For a finite \<open>x\<close> below \<open>10^21\<close> in absolute value,
  \<^verbatim>\<open>toFixed(2)\<close> prints \<open>n / 100\<close> for the integer \<open>n\<close> nearest to \<open>100 * |x|\<close>, the
  larger one when two are equally near, with the sign of \<open>x\<close>; from \<open>10^21\<close> on, and for NaN
  and the infinities, it prints the number itself.
\<close>

fun Number_toFixed2 :: "jsnum \<Rightarrow> jsnum" where
  "Number_toFixed2 (Fin x) =
     (if 10 ^ 21 \<le> \<bar>x\<bar> then Fin x
      else Fin (sgn x * of_int \<lfloor>100 * \<bar>x\<bar> + 1 / 2\<rfloor> / 100))"
| "Number_toFixed2 v = v"

text \<open>
  The doubles, for the one place where the rounding of the source matters: a double is
  \<open>m * 2^e\<close> with \<open>|m| < 2^53\<close> and \<open>-1074 \<le> e \<le> 971\<close>, and an arithmetic result is
  a double nearest to the exact one.
\<close>

definition pow2 :: "int \<Rightarrow> rat" where
  "pow2 e = (if 0 \<le> e then 2 ^ nat e else 1 / 2 ^ nat (- e))"

definition is_double :: "rat \<Rightarrow> bool" where
  "is_double y = (\<exists>m e :: int. \<bar>m\<bar> < 2 ^ 53 \<and> - 1074 \<le> e \<and> e \<le> 971 \<and> y = of_int m * pow2 e)"

definition nearest_double :: "rat \<Rightarrow> rat \<Rightarrow> bool" where
  "nearest_double x y = (is_double y \<and> (\<forall>z. is_double z \<longrightarrow> \<bar>y - x\<bar> \<le> \<bar>z - x\<bar>))"

section \<open>The deterministic synthesizer\<close>

text \<open>
  \<^verbatim>\<open>seedNum\<close>: the loop \<^verbatim>\<open>h = (h * 31 + str.charCodeAt(i)) >>> 0\<close> from \<open>h = 0\<close>.
  \<^verbatim>\<open>>>> 0\<close> is ToUint32, the value modulo \<open>2^32\<close>.
\<close>

fun seedNum_loop :: "nat \<Rightarrow> jsstring \<Rightarrow> nat" where
  "seedNum_loop h [] = h"
| "seedNum_loop h (c # cs) = seedNum_loop ((h * 31 + unat c) mod 2 ^ 32) cs"

definition seedNum :: "jsstring \<Rightarrow> nat" where
  "seedNum s = seedNum_loop 0 s"

text \<open>
  \<^verbatim>\<open>simulatePrice(rxcui, placeId)\<close> and \<^verbatim>\<open>simulateStock(placeId)\<close>; both arguments are the
  strings that \<^verbatim>\<open>String(...)\<close> makes of the identifiers.
\<close>

definition simulatePrice :: "jsstring \<Rightarrow> jsstring \<Rightarrow> jsnum" where
  "simulatePrice rxcui placeId =
     (let base = js_add (Fin 10) (Fin (of_nat (seedNum rxcui mod 40)));
          variation = js_div (Fin (of_nat (seedNum placeId mod 200))) (Fin 100)
      in Number_toFixed2 (js_add base variation))"

definition simulateStock :: "jsstring \<Rightarrow> jsstring" where
  "simulateStock placeId =
     (let v = seedNum placeId mod 100
      in if v < 10 then str ''out_of_stock''
         else if v < 35 then str ''low_stock''
         else str ''in_stock'')"

text \<open>
  The hash in the words of the specification: the polynomial in 31 whose coefficients are
  the code units, the first one with the highest power, in unsigned 32-bit arithmetic.
\<close>

definition poly_hash :: "jsstring \<Rightarrow> 32 word" where
  "poly_hash s = (\<Sum>i<length s. ucast (s ! i) * 31 ^ (length s - Suc i))"

definition hash :: "jsstring \<Rightarrow> nat" where
  "hash s = unat (poly_hash s)"

section \<open>Number(string)\<close>

text \<open>
  \<^verbatim>\<open>Number(s)\<close> for a string: StringToNumber. White space is stripped at both ends; the
  empty string is 0; what remains must be all of one StrNumericLiteral (a signed decimal
  literal with optional fraction and exponent, \<^verbatim>\<open>Infinity\<close>, or an unsigned binary, octal
  or hexadecimal integer literal), and is NaN otherwise. The value of a literal is the
  rational it denotes: its rounding to the nearest double, and with it the overflow of a
  literal beyond the largest double to an infinity, is not part of the model. Which
  strings are read as NaN does not depend on it.
\<close>

definition isDigit :: "16 word \<Rightarrow> bool" where
  "isDigit c = (48 \<le> unat c \<and> unat c \<le> 57)"

definition digitValue :: "16 word \<Rightarrow> nat option" where
  "digitValue c =
     (let n = unat c in
        if 48 \<le> n \<and> n \<le> 57 then Some (n - 48)
        else if 97 \<le> n \<and> n \<le> 102 then Some (n - 87)
        else if 65 \<le> n \<and> n \<le> 70 then Some (n - 55)
        else None)"

definition isDigitOf :: "nat \<Rightarrow> 16 word \<Rightarrow> bool" where
  "isDigitOf b c = (case digitValue c of None \<Rightarrow> False | Some d \<Rightarrow> d < b)"

definition digitsValue :: "nat \<Rightarrow> jsstring \<Rightarrow> nat" where
  "digitsValue b ds = foldl (\<lambda>a c. a * b + (case digitValue c of None \<Rightarrow> 0 | Some d \<Rightarrow> d)) 0 ds"

definition pow10 :: "int \<Rightarrow> rat" where
  "pow10 e = (if 0 \<le> e then 10 ^ nat e else 1 / 10 ^ nat (- e))"

text \<open>The ExponentPart that may end a decimal literal; \<open>None\<close> when the text is not one.\<close>

definition parseExponent :: "jsstring \<Rightarrow> int option" where
  "parseExponent s =
     (case s of
        [] \<Rightarrow> Some 0
      | c # r \<Rightarrow>
          if c = of_char CHR ''e'' \<or> c = of_char CHR ''E'' then
            (let neg = (r \<noteq> [] \<and> hd r = of_char CHR ''-'');
                 ds = (if r \<noteq> [] \<and> (hd r = of_char CHR ''-'' \<or> hd r = of_char CHR ''+'')
                       then tl r else r)
             in if ds \<noteq> [] \<and> list_all isDigit ds
                then Some (if neg then - int (digitsValue 10 ds) else int (digitsValue 10 ds))
                else None)
          else None)"

definition parseUnsignedDecimal :: "jsstring \<Rightarrow> jsnum" where
  "parseUnsignedDecimal s =
     (if s = str ''Infinity'' then PosInf
      else
        let ip = takeWhile isDigit s;
            r = dropWhile isDigit s;
            dot = (r \<noteq> [] \<and> hd r = of_char CHR ''.'');
            fp = (if dot then takeWhile isDigit (tl r) else []);
            r' = (if dot then dropWhile isDigit (tl r) else r)
        in if ip = [] \<and> fp = [] then NaN
           else case parseExponent r' of
                  None \<Rightarrow> NaN
                | Some e \<Rightarrow> Fin (of_nat (digitsValue 10 (ip @ fp)) * pow10 (e - int (length fp))))"

definition parseNonDecimal :: "jsstring \<Rightarrow> jsnum option" where
  "parseNonDecimal s =
     (case s of
        z # x # ds \<Rightarrow>
          (let b = (if x = of_char CHR ''x'' \<or> x = of_char CHR ''X'' then 16
                    else if x = of_char CHR ''o'' \<or> x = of_char CHR ''O'' then 8
                    else if x = of_char CHR ''b'' \<or> x = of_char CHR ''B'' then 2
                    else (0::nat))
           in if z = of_char CHR ''0'' \<and> b \<noteq> 0
              then Some (if ds \<noteq> [] \<and> list_all (isDigitOf b) ds
                         then Fin (of_nat (digitsValue b ds)) else NaN)
              else None)
      | _ \<Rightarrow> None)"

definition Number_str :: "jsstring \<Rightarrow> jsnum" where
  "Number_str s =
     (let t = trim s in
        if t = [] then Fin 0
        else case parseNonDecimal t of
               Some v \<Rightarrow> v
             | None \<Rightarrow>
                 if hd t = of_char CHR ''-'' then js_neg (parseUnsignedDecimal (tl t))
                 else if hd t = of_char CHR ''+'' then parseUnsignedDecimal (tl t)
                 else parseUnsignedDecimal t)"

section \<open>Values of the upstream answers\<close>

text \<open>
  A field of an upstream JSON answer, or a variable that holds one: \<^verbatim>\<open>undefined\<close> (the
  field is missing), \<^verbatim>\<open>null\<close>, a boolean, a number or a string. A field that holds an
  object or an array where the source expects one of these is outside the model.
\<close>

datatype jsval = JUndefined | JNull | JBool bool | JNum jsnum | JStr jsstring

text \<open>Truthiness, as \<^verbatim>\<open>!v\<close>, \<^verbatim>\<open>v ? a : b\<close>, \<^verbatim>\<open>a || b\<close>, \<^verbatim>\<open>a && b\<close> and \<^verbatim>\<open>filter(Boolean)\<close> test it.\<close>

definition truthy :: "jsval \<Rightarrow> bool" where
  "truthy v =
     (case v of
        JUndefined \<Rightarrow> False
      | JNull \<Rightarrow> False
      | JBool b \<Rightarrow> b
      | JNum n \<Rightarrow> n \<noteq> NaN \<and> n \<noteq> Fin 0
      | JStr s \<Rightarrow> s \<noteq> [])"

text \<open>\<^verbatim>\<open>a || b\<close> and \<^verbatim>\<open>a ?? b\<close>.\<close>

definition orVal :: "jsval \<Rightarrow> jsval \<Rightarrow> jsval" where
  "orVal a b = (if truthy a then a else b)"

definition nullishOr :: "jsval \<Rightarrow> jsval \<Rightarrow> jsval" where
  "nullishOr a b = (if a = JUndefined \<or> a = JNull then b else a)"

text \<open>ToNumber, which the arithmetic operators apply to their operands.\<close>

definition ToNumber :: "jsval \<Rightarrow> jsnum" where
  "ToNumber v =
     (case v of
        JUndefined \<Rightarrow> NaN
      | JNull \<Rightarrow> Fin 0
      | JBool b \<Rightarrow> (if b then Fin 1 else Fin 0)
      | JNum n \<Rightarrow> n
      | JStr s \<Rightarrow> Number_str s)"

text \<open>
  \<^verbatim>\<open>String(v)\<close>. The printing of a number is the built-in \<^verbatim>\<open>Number.prototype.toString\<close>,
  taken as a parameter.
\<close>

definition ToString :: "(jsnum \<Rightarrow> jsstring) \<Rightarrow> jsval \<Rightarrow> jsstring" where
  "ToString numberToString v =
     (case v of
        JUndefined \<Rightarrow> str ''undefined''
      | JNull \<Rightarrow> str ''null''
      | JBool b \<Rightarrow> (if b then str ''true'' else str ''false'')
      | JNum n \<Rightarrow> numberToString n
      | JStr s \<Rightarrow> s)"

text \<open>\<^verbatim>\<open>parts.join(', ')\<close> for an array of strings.\<close>

fun joinComma :: "jsstring list \<Rightarrow> jsstring" where
  "joinComma [] = []"
| "joinComma [s] = s"
| "joinComma (s # t # ts) = s @ str '', '' @ joinComma (t # ts)"

section \<open>Data of the search endpoint\<close>

text \<open>
  The query string of \<^verbatim>\<open>GET /api/search\<close>: every parameter is absent or one string.
  A parameter that is repeated or written with brackets, which Express parses to an array
  or an object, is outside the model.
\<close>

record query =
  q_med :: "jsstring option"
  q_location :: "jsstring option"
  q_radius_km :: "jsstring option"
  q_price_min :: "jsstring option"
  q_price_max :: "jsstring option"
  q_stock :: "jsstring option"
  q_sort :: "jsstring option"

text \<open>
  An entry of \<^verbatim>\<open>conceptProperties\<close> in the RxNorm answer, with the two fields that the
  source reads, \<^verbatim>\<open>rxcui\<close> and \<^verbatim>\<open>name\<close>; a concept group, whose \<^verbatim>\<open>conceptProperties\<close>
  may be missing; and the payload that \<^verbatim>\<open>rxnormLookup\<close> builds and caches.
\<close>

record conceptProperty =
  cp_rxcui :: jsval
  cp_name :: jsval

record conceptGroup =
  conceptProperties :: "conceptProperty list option"

record drug =
  rxcui :: jsval
  name :: jsval
  suggestions :: "jsstring list"

text \<open>
  The coordinates that \<^verbatim>\<open>geocodeText\<close> returns and caches. The first feature of the
  Geoapify geocoder, whose \<^verbatim>\<open>properties\<close> hold them (\<open>None\<close>: the feature has no
  \<^verbatim>\<open>properties\<close>); the first item of Nominatim, which holds them as texts.
\<close>

record geo =
  lat :: jsval
  lon :: jsval

record geocode_feature =
  gf_properties :: "geo option"

record nominatim_item =
  n_lat :: jsval
  n_lon :: jsval

text \<open>
  The \<^verbatim>\<open>properties\<close> of a feature of Geoapify Places, with the fields that the source
  reads (\<open>pp_contact_phone\<close> is \<^verbatim>\<open>contact?.phone\<close>), and an element of the Overpass answer
  (\<open>oe_center_lat\<close> is \<^verbatim>\<open>center?.lat\<close>, \<open>ot_name\<close> is \<^verbatim>\<open>tags?.name\<close>, and so on).
\<close>

record places_properties =
  pp_place_id :: jsval
  pp_name :: jsval
  pp_formatted :: jsval
  pp_street :: jsval
  pp_city :: jsval
  pp_contact_phone :: jsval
  pp_distance :: jsval
  pp_lat :: jsval
  pp_lon :: jsval

record overpass_element =
  oe_id :: jsval
  oe_lat :: jsval
  oe_lon :: jsval
  oe_center_lat :: jsval
  oe_center_lon :: jsval
  ot_name :: jsval
  ot_housenumber :: jsval
  ot_street :: jsval
  ot_city :: jsval
  ot_postcode :: jsval
  ot_phone :: jsval
  ot_contact_phone :: jsval

text \<open>
  A pharmacy as \<^verbatim>\<open>findPharmacies\<close> returns it (\<open>place_id\<close> and \<open>place_name\<close> are its
  \<^verbatim>\<open>id\<close> and \<^verbatim>\<open>name\<close>). \<open>distance_km\<close> is \<^verbatim>\<open>null\<close> (\<open>None\<close>) or a number, which
  may be NaN. An item of the answer is the pharmacy with the two simulated fields.
\<close>

record place =
  place_id :: jsval
  place_name :: jsval
  address :: jsval
  phone :: jsval
  distance_km :: "jsnum option"
  place_lat :: jsval
  place_lon :: jsval

record item = place +
  price_usd :: jsnum
  availability :: jsstring

text \<open>
  The two caches, \<^verbatim>\<open>cache.geocode\<close> and \<^verbatim>\<open>cache.rxnorm\<close>: maps from the key text.
\<close>

record cache =
  geocode :: "jsstring \<rightharpoonup> geo"
  rxnorm :: "jsstring \<rightharpoonup> drug"

text \<open>
  Errors. An axios error carries the upstream response when the server answered;
  \<^verbatim>\<open>upstreamError\<close> makes a new error with the given message and the original one as
  its cause. \<open>typeError\<close> is the TypeError of reading a field of \<^verbatim>\<open>undefined\<close>.
\<close>

record http_response =
  resp_status :: nat
  resp_data :: jsstring

datatype jserror =
  JsError (message: jsstring) (cause: "jserror option") (response: "http_response option")

definition upstreamError :: "jsstring \<Rightarrow> jserror \<Rightarrow> jserror" where
  "upstreamError msg err = JsError msg (Some err) None"

definition typeError :: jserror where
  "typeError = JsError (str ''Cannot read properties of undefined'') None None"

record details =
  d_status :: nat
  d_error :: jsstring
  d_data :: "jsstring option"

definition extractError :: "jserror \<Rightarrow> details" where
  "extractError err =
     (case response err of
        Some r \<Rightarrow> \<lparr>d_status = resp_status r, d_error = str ''Upstream error'',
                   d_data = Some (resp_data r)\<rparr>
      | None \<Rightarrow> \<lparr>d_status = 502,
                   d_error = (if message err \<noteq> [] then message err else str ''Unknown error''),
                   d_data = None\<rparr>)"

text \<open>What the handler sends: a status and a JSON body of one of four shapes.\<close>

record search_result =
  med_name :: jsval
  med_rxcui :: jsval
  location_text :: jsstring
  location_lat :: jsval
  location_lon :: jsval
  total :: nat
  items :: "item list"

datatype body =
    ErrorBody jsstring
  | SuggestionsBody jsstring "jsstring list"
  | ResultBody search_result
  | DetailsBody details

record reply =
  status :: nat
  json :: body

text \<open>
  The world outside the source file, as one request sees it.

  Built-ins, taken as they are: \<open>toLowerCase\<close>; \<open>numberToString\<close>, the printing of a
  number; \<open>parseFloat\<close>; and \<open>haversine\<close>, what the arithmetic of \<^verbatim>\<open>haversineKm\<close>
  (\<^verbatim>\<open>Math.sin\<close>, \<^verbatim>\<open>Math.cos\<close>, \<^verbatim>\<open>Math.atan2\<close>, \<^verbatim>\<open>Math.sqrt\<close>) gives for four finite
  numbers.

  Configuration: \<open>GEOAPIFY_KEY\<close>, the environment variable, \<open>None\<close> when it is not set.

  The upstream requests, each the error that the request or the reading of its answer
  throws, or the part of the answer that the source reads: \<open>rxnav_drugs\<close> is
  \<^verbatim>\<open>r.data?.drugGroup?.conceptGroup\<close> and \<open>rxnav_spelling\<close> is
  \<^verbatim>\<open>s.data?.suggestionGroup?.suggestionList?.suggestion\<close> for a name;
  \<open>geoapify_geocode\<close> is \<^verbatim>\<open>r.data?.features?.[0]\<close> and \<open>nominatim_search\<close> is
  \<^verbatim>\<open>r.data?.[0]\<close> for a text; \<open>geoapify_places\<close> is \<^verbatim>\<open>r.data?.features\<close> and \<open>overpass\<close>
  is \<^verbatim>\<open>r.data?.elements\<close> for a centre and a radius in metres. \<open>None\<close> is a missing or
  falsy value; in the two lists, \<open>None\<close> is a feature without \<^verbatim>\<open>properties\<close> and an
  element that is \<^verbatim>\<open>null\<close>.
\<close>

record world =
  toLowerCase :: "jsstring \<Rightarrow> jsstring"
  numberToString :: "jsnum \<Rightarrow> jsstring"
  parseFloat :: "jsval \<Rightarrow> jsnum"
  haversine :: "rat \<Rightarrow> rat \<Rightarrow> rat \<Rightarrow> rat \<Rightarrow> jsnum"
  GEOAPIFY_KEY :: "jsstring option"
  rxnav_drugs :: "jsstring \<Rightarrow> jserror + conceptGroup list option"
  rxnav_spelling :: "jsstring \<Rightarrow> jserror + jsstring list option"
  geoapify_geocode :: "jsstring \<Rightarrow> jserror + geocode_feature option"
  nominatim_search :: "jsstring \<Rightarrow> jserror + nominatim_item option"
  geoapify_places :: "jsval \<Rightarrow> jsval \<Rightarrow> jsnum \<Rightarrow> jserror + places_properties option list option"
  overpass :: "jsval \<Rightarrow> jsval \<Rightarrow> jsnum \<Rightarrow> jserror + overpass_element option list option"

definition keySet :: "world \<Rightarrow> bool" where
  "keySet w = (case GEOAPIFY_KEY w of None \<Rightarrow> False | Some k \<Rightarrow> k \<noteq> [])"

section \<open>The resolvers\<close>

text \<open>
  The two loops of \<^verbatim>\<open>rxnormLookup\<close>: the first entry met becomes \<open>best\<close>; an entry for
  which \<^verbatim>\<open>String(p.name).toLowerCase() === key\<close> becomes \<open>best\<close> and ends the scan of its
  group, not the scan of the groups.
\<close>

definition nameMatches :: "world \<Rightarrow> jsstring \<Rightarrow> conceptProperty \<Rightarrow> bool" where
  "nameMatches w key p = (toLowerCase w (ToString (numberToString w) (cp_name p)) = key)"

fun scanProps ::
  "world \<Rightarrow> jsstring \<Rightarrow> conceptProperty option \<Rightarrow> conceptProperty list
     \<Rightarrow> conceptProperty option" where
  "scanProps w key best [] = best"
| "scanProps w key best (p # ps) =
     (let best' = (if best = None then Some p else best)
      in if nameMatches w key p then Some p else scanProps w key best' ps)"

definition propsOf :: "conceptGroup \<Rightarrow> conceptProperty list" where
  "propsOf g = (case conceptProperties g of None \<Rightarrow> [] | Some ps \<Rightarrow> ps)"

fun scanGroups ::
  "world \<Rightarrow> jsstring \<Rightarrow> conceptProperty option \<Rightarrow> conceptGroup list
     \<Rightarrow> conceptProperty option" where
  "scanGroups w key best [] = best"
| "scanGroups w key best (g # gs) = scanGroups w key (scanProps w key best (propsOf g)) gs"

definition rxnormLookup :: "world \<Rightarrow> cache \<Rightarrow> jsstring \<Rightarrow> (jserror + drug) \<times> cache" where
  "rxnormLookup w c med =
     (let key = toLowerCase w (trim med) in
      case rxnorm c key of
        Some payload \<Rightarrow> (Inr payload, c)
      | None \<Rightarrow>
          (case rxnav_drugs w med of
             Inl err \<Rightarrow> (Inl (upstreamError (str ''RxNorm lookup failed'') err), c)
           | Inr cg \<Rightarrow>
               (case scanGroups w key None (case cg of None \<Rightarrow> [] | Some groups \<Rightarrow> groups) of
                  None \<Rightarrow>
                    (case rxnav_spelling w med of
                       Inl err \<Rightarrow> (Inl (upstreamError (str ''RxNorm lookup failed'') err), c)
                     | Inr sl \<Rightarrow>
                         (let payload = \<lparr>rxcui = JNull, name = JNull,
                                suggestions = (case sl of None \<Rightarrow> [] | Some l \<Rightarrow> l)\<rparr>
                          in (Inr payload, c\<lparr>rxnorm := (rxnorm c)(key \<mapsto> payload)\<rparr>)))
                | Some best \<Rightarrow>
                    (let payload = \<lparr>rxcui = cp_rxcui best, name = cp_name best,
                           suggestions = []\<rparr>
                     in (Inr payload, c\<lparr>rxnorm := (rxnorm c)(key \<mapsto> payload)\<rparr>)))))"

text \<open>
  \<^verbatim>\<open>geocodeText\<close>: the cached coordinates, or those of the configured provider, which
  are cached; \<^verbatim>\<open>null\<close> (\<open>None\<close>) when the provider has no result, which is not cached.
  Destructuring the \<^verbatim>\<open>properties\<close> of a feature that has none throws.
\<close>

definition geocodeText :: "world \<Rightarrow> cache \<Rightarrow> jsstring \<Rightarrow> (jserror + geo option) \<times> cache" where
  "geocodeText w c text =
     (let key = toLowerCase w (trim text) in
      case geocode c key of
        Some payload \<Rightarrow> (Inr (Some payload), c)
      | None \<Rightarrow>
          if keySet w then
            (case geoapify_geocode w text of
               Inl err \<Rightarrow> (Inl (upstreamError (str ''Geocoding failed'') err), c)
             | Inr None \<Rightarrow> (Inr None, c)
             | Inr (Some feat) \<Rightarrow>
                 (case gf_properties feat of
                    None \<Rightarrow> (Inl (upstreamError (str ''Geocoding failed'') typeError), c)
                  | Some props \<Rightarrow>
                      (let payload = \<lparr>lat = lat props, lon = lon props\<rparr>
                       in (Inr (Some payload), c\<lparr>geocode := (geocode c)(key \<mapsto> payload)\<rparr>))))
          else
            (case nominatim_search w text of
               Inl err \<Rightarrow> (Inl (upstreamError (str ''Geocoding failed'') err), c)
             | Inr None \<Rightarrow> (Inr None, c)
             | Inr (Some it) \<Rightarrow>
                 (let payload = \<lparr>lat = JNum (parseFloat w (n_lat it)),
                                 lon = JNum (parseFloat w (n_lon it))\<rparr>
                  in (Inr (Some payload), c\<lparr>geocode := (geocode c)(key \<mapsto> payload)\<rparr>))))"

text \<open>
  \<^verbatim>\<open>haversineKm\<close>. Its arithmetic turns every argument into a number. When one of them
  is NaN or infinite, a difference or a sine is NaN, and with it the result; for four
  finite numbers the result is what the arithmetic of the platform gives.
\<close>

definition haversineKm :: "world \<Rightarrow> jsval \<Rightarrow> jsval \<Rightarrow> jsval \<Rightarrow> jsval \<Rightarrow> jsnum" where
  "haversineKm w lat1 lon1 lat2 lon2 =
     (case (ToNumber lat1, ToNumber lon1, ToNumber lat2, ToNumber lon2) of
        (Fin a, Fin b, Fin c, Fin d) \<Rightarrow> haversine w a b c d
      | _ \<Rightarrow> NaN)"

text \<open>
  The pharmacy that \<^verbatim>\<open>findPharmacies\<close> makes of the \<^verbatim>\<open>properties\<close> of a Geoapify
  feature, and of an Overpass element.
\<close>

definition geoapifyPlace :: "world \<Rightarrow> jsval \<Rightarrow> jsval \<Rightarrow> places_properties \<Rightarrow> place" where
  "geoapifyPlace w la lo f =
     \<lparr>place_id = pp_place_id f,
      place_name = orVal (pp_name f) (JStr (str ''Unknown Pharmacy'')),
      address = orVal (pp_formatted f)
                  (JStr (joinComma (map (ToString (numberToString w))
                                      (filter truthy [pp_street f, pp_city f])))),
      phone = orVal (pp_contact_phone f) JNull,
      distance_km = Some (if truthy (pp_distance f)
                          then Number_toFixed2 (js_div (ToNumber (pp_distance f)) (Fin 1000))
                          else haversineKm w la lo (pp_lat f) (pp_lon f)),
      place_lat = pp_lat f,
      place_lon = pp_lon f\<rparr>"

definition overpassPlace :: "world \<Rightarrow> jsval \<Rightarrow> jsval \<Rightarrow> overpass_element \<Rightarrow> place" where
  "overpassPlace w la lo e =
     (let pLat = nullishOr (oe_lat e) (oe_center_lat e);
          pLon = nullishOr (oe_lon e) (oe_center_lon e);
          addressParts = filter truthy [ot_housenumber e, ot_street e, ot_city e, ot_postcode e]
      in \<lparr>place_id = oe_id e,
          place_name = orVal (ot_name e) (JStr (str ''Pharmacy'')),
          address = (if addressParts \<noteq> []
                     then JStr (joinComma (map (ToString (numberToString w)) addressParts))
                     else JNull),
          phone = orVal (ot_phone e) (orVal (ot_contact_phone e) JNull),
          distance_km = (if truthy pLat \<and> truthy pLon
                         then Some (Number_toFixed2 (haversineKm w la lo pLat pLon))
                         else None),
          place_lat = pLat,
          place_lon = pLon\<rparr>)"

text \<open>
  \<^verbatim>\<open>findPharmacies\<close>: the pharmacies of the configured provider in its order, or the
  error thrown by the request or by the mapping, wrapped.
\<close>

definition findPharmacies :: "world \<Rightarrow> jsval \<Rightarrow> jsval \<Rightarrow> jsnum \<Rightarrow> jserror + place list" where
  "findPharmacies w la lo radiusMeters =
     (if keySet w then
        (case geoapify_places w la lo radiusMeters of
           Inl err \<Rightarrow> Inl (upstreamError (str ''Pharmacy search failed'') err)
         | Inr fs \<Rightarrow>
             (case those (case fs of None \<Rightarrow> [] | Some feats \<Rightarrow> feats) of
                None \<Rightarrow> Inl (upstreamError (str ''Pharmacy search failed'') typeError)
              | Some feats \<Rightarrow> Inr (map (geoapifyPlace w la lo) feats)))
      else
        (case overpass w la lo radiusMeters of
           Inl err \<Rightarrow> Inl (upstreamError (str ''Pharmacy search failed'') err)
         | Inr es \<Rightarrow>
             (case those (case es of None \<Rightarrow> [] | Some elements \<Rightarrow> elements) of
                None \<Rightarrow> Inl (upstreamError (str ''Pharmacy search failed'') typeError)
              | Some elements \<Rightarrow> Inr (map (overpassPlace w la lo) elements))))"

section \<open>The search handler\<close>

text \<open>
  \<^verbatim>\<open>(v || d).toString()\<close> for a query parameter: the default stands in for an absent and
  for an empty parameter.
\<close>

definition orElse :: "jsstring option \<Rightarrow> jsstring \<Rightarrow> jsstring" where
  "orElse v d = (case v of None \<Rightarrow> d | Some s \<Rightarrow> if s = [] then d else s)"

text \<open>\<^verbatim>\<open>Number(req.query.radius_km || 10)\<close> and the radius handed to \<^verbatim>\<open>findPharmacies\<close>.\<close>

definition radiusKm :: "query \<Rightarrow> jsnum" where
  "radiusKm q =
     (case q_radius_km q of None \<Rightarrow> Fin 10 | Some s \<Rightarrow> if s = [] then Fin 10 else Number_str s)"

definition radiusMeters :: "query \<Rightarrow> jsnum" where
  "radiusMeters q = Math_max (Fin 1000) (Math_min (Fin 50000) (js_mul (radiusKm q) (Fin 1000)))"

text \<open>\<^verbatim>\<open>req.query.price_min ? Number(req.query.price_min) : null\<close>, and the same for the maximum.\<close>

definition priceBound :: "jsstring option \<Rightarrow> jsnum option" where
  "priceBound v =
     (case v of None \<Rightarrow> None | Some s \<Rightarrow> if s = [] then None else Some (Number_str s))"

definition priceMin :: "query \<Rightarrow> jsnum option" where
  "priceMin q = priceBound (q_price_min q)"

definition priceMax :: "query \<Rightarrow> jsnum option" where
  "priceMax q = priceBound (q_price_max q)"

definition stockFilter :: "query \<Rightarrow> jsstring" where
  "stockFilter q = orElse (q_stock q) (str ''any'')"

definition sortBy :: "query \<Rightarrow> jsstring" where
  "sortBy q = orElse (q_sort q) (str ''distance'')"

text \<open>
  The enrichment of one pharmacy with the simulated price and stock;
  \<^verbatim>\<open>simulatePrice\<close> and \<^verbatim>\<open>simulateStock\<close> apply \<^verbatim>\<open>String\<close> to the identifiers.
\<close>

definition enrich :: "world \<Rightarrow> jsval \<Rightarrow> place \<Rightarrow> item" where
  "enrich w rx p =
     place.extend p
       (item.fields
          (simulatePrice (ToString (numberToString w) rx) (ToString (numberToString w) (place_id p)))
          (simulateStock (ToString (numberToString w) (place_id p))))"

text \<open>The four filters, in the order of the source.\<close>

definition filterItems :: "jsnum option \<Rightarrow> jsnum option \<Rightarrow> jsstring \<Rightarrow> item list \<Rightarrow> item list" where
  "filterItems pmin pmax stock items0 =
     (let items1 = (case pmin of None \<Rightarrow> items0
                    | Some m \<Rightarrow> filter (\<lambda>i. js_ge (price_usd i) m) items0);
          items2 = (case pmax of None \<Rightarrow> items1
                    | Some m \<Rightarrow> filter (\<lambda>i. js_le (price_usd i) m) items1);
          items3 = (if stock = str ''in_stock''
                    then filter (\<lambda>i. availability i = str ''in_stock'') items2 else items2);
          items4 = (if stock = str ''low_stock''
                    then filter (\<lambda>i. availability i = str ''low_stock'') items3 else items3)
      in items4)"

text \<open>
  \<^verbatim>\<open>Array.prototype.sort\<close> with a comparator. The sort is stable, and a comparator result
  of NaN counts as 0. Every stable sorting algorithm returns the same array for one
  comparator that orders the elements consistently; insertion from the right stands for
  them: an element goes behind the elements that the comparator puts before it (a result
  above 0), and stays in front of the others. For a comparator that is not consistent, as
  the distance comparator is on a distance of NaN, the language leaves the order to the
  engine, and the result here is that of this insertion.
\<close>

fun js_insert :: "('a \<Rightarrow> 'a \<Rightarrow> jsnum) \<Rightarrow> 'a \<Rightarrow> 'a list \<Rightarrow> 'a list" where
  "js_insert cmp x [] = [x]"
| "js_insert cmp x (y # ys) =
     (if js_lt (Fin 0) (cmp x y) then y # js_insert cmp x ys else x # y # ys)"

definition Array_sort :: "('a \<Rightarrow> 'a \<Rightarrow> jsnum) \<Rightarrow> 'a list \<Rightarrow> 'a list" where
  "Array_sort cmp xs = foldr (js_insert cmp) xs []"

text \<open>\<^verbatim>\<open>d ?? Infinity\<close> for a distance.\<close>

definition orInfinity :: "jsnum option \<Rightarrow> jsnum" where
  "orInfinity d = (case d of None \<Rightarrow> PosInf | Some x \<Rightarrow> x)"

definition sortItems :: "jsstring \<Rightarrow> item list \<Rightarrow> item list" where
  "sortItems sb its =
     (if sb = str ''price_asc''
        then Array_sort (\<lambda>a b. js_sub (price_usd a) (price_usd b)) its
      else if sb = str ''price_desc''
        then Array_sort (\<lambda>a b. js_sub (price_usd b) (price_usd a)) its
      else if sb = str ''distance''
        then Array_sort (\<lambda>a b. js_sub (orInfinity (distance_km a)) (orInfinity (distance_km b))) its
      else its)"

text \<open>\<^verbatim>\<open>res.status(st).json(b)\<close>, and the \<^verbatim>\<open>catch\<close> block of the handler.\<close>

definition send :: "nat \<Rightarrow> body \<Rightarrow> reply" where
  "send st b = \<lparr>status = st, json = b\<rparr>"

definition sendError :: "jserror \<Rightarrow> reply" where
  "sendError err =
     (let dt = extractError err
      in send (if d_status dt = 0 then 502 else d_status dt) (DetailsBody dt))"

text \<open>
  The handler of \<^verbatim>\<open>GET /api/search\<close>: the reply, and the caches as the request leaves them.
\<close>

definition search :: "world \<Rightarrow> cache \<Rightarrow> query \<Rightarrow> reply \<times> cache" where
  "search w c q =
     (let med = trim (orElse (q_med q) []);
          location = trim (orElse (q_location q) [])
      in if med = [] then (send 400 (ErrorBody (str ''Missing parameter: med'')), c)
         else if location = [] then (send 400 (ErrorBody (str ''Missing parameter: location'')), c)
         else
           case rxnormLookup w c med of
             (Inl err, c1) \<Rightarrow> (sendError err, c1)
           | (Inr dr, c1) \<Rightarrow>
               if \<not> truthy (rxcui dr)
               then (send 400 (SuggestionsBody (str ''Invalid medicine name'') (suggestions dr)), c1)
               else
                 (case geocodeText w c1 location of
                    (Inl err, c2) \<Rightarrow> (sendError err, c2)
                  | (Inr None, c2) \<Rightarrow> (send 404 (ErrorBody (str ''Location not found'')), c2)
                  | (Inr (Some g), c2) \<Rightarrow>
                      (case findPharmacies w (lat g) (lon g) (radiusMeters q) of
                         Inl err \<Rightarrow> (sendError err, c2)
                       | Inr places \<Rightarrow>
                           (let its = sortItems (sortBy q)
                                        (filterItems (priceMin q) (priceMax q) (stockFilter q)
                                           (map (enrich w (rxcui dr)) places))
                            in (send 200
                                  (ResultBody
                                     \<lparr>med_name = name dr, med_rxcui = rxcui dr,
                                      location_text = location,
                                      location_lat = lat g, location_lon = lon g,
                                      total = length its, items = its\<rparr>),
                                c2)))))"

text \<open>The items of a reply; none when the reply is not a search result.\<close>

definition reply_items :: "reply \<Rightarrow> item list" where
  "reply_items r = (case json r of ResultBody res \<Rightarrow> items res | _ \<Rightarrow> [])"

definition reply_total :: "reply \<Rightarrow> nat option" where
  "reply_total r = (case json r of ResultBody res \<Rightarrow> Some (total res) | _ \<Rightarrow> None)"

section \<open>Properties named by the specification\<close>

text \<open>
  The distance order: a present distance comes before an absent one, and present distances
  compare as numbers. A list of items is sorted by distance when every item is before
  the later ones in this order. A distance is regular when it is absent or a finite
  number.
\<close>

definition distance_le :: "jsnum option \<Rightarrow> jsnum option \<Rightarrow> bool" where
  "distance_le a b =
     (case b of None \<Rightarrow> True | Some y \<Rightarrow> (case a of None \<Rightarrow> False | Some x \<Rightarrow> js_le x y))"

definition distance_sorted :: "item list \<Rightarrow> bool" where
  "distance_sorted its = sorted_wrt (\<lambda>a b. distance_le (distance_km a) (distance_km b)) its"

definition regular_distance :: "jsnum option \<Rightarrow> bool" where
  "regular_distance d = (case d of None \<Rightarrow> True | Some (Fin x) \<Rightarrow> True | Some _ \<Rightarrow> False)"

text \<open>
  A value is present when it is neither \<^verbatim>\<open>null\<close> nor \<^verbatim>\<open>undefined\<close>. The candidates of a
  RxNorm answer are the entries of its groups, in their order. What holds of every payload
  of \<^verbatim>\<open>rxnormLookup\<close>: one with suggestions has neither identifier nor name.
\<close>

definition present :: "jsval \<Rightarrow> bool" where
  "present v = (v \<noteq> JNull \<and> v \<noteq> JUndefined)"

definition candidates :: "conceptGroup list option \<Rightarrow> conceptProperty list" where
  "candidates cg = concat (map propsOf (case cg of None \<Rightarrow> [] | Some groups \<Rightarrow> groups))"

definition drug_ok :: "drug \<Rightarrow> bool" where
  "drug_ok d = (suggestions d \<noteq> [] \<longrightarrow> rxcui d = JNull \<and> name d = JNull)"

text \<open>
  What the scan holds after a list of entries none of whose names is the key: the entry
  it held before, or else the first of the list.
\<close>

definition firstOf :: "'a option \<Rightarrow> 'a list \<Rightarrow> 'a option" where
  "firstOf best xs =
     (case best of Some b \<Rightarrow> Some b | None \<Rightarrow> (case xs of [] \<Rightarrow> None | p # _ \<Rightarrow> Some p))"

section \<open>Two example worlds\<close>

text \<open>
  Stand-ins for the built-ins, right where the examples use them: \<open>ascii_lower\<close> is
  \<^verbatim>\<open>toLowerCase\<close> on ASCII text; \<open>print_number\<close> is the printing of a whole number that
  is not negative, of NaN and of the infinities; \<open>read_float\<close> is \<^verbatim>\<open>parseFloat\<close> on a
  number and on a text that is all of one decimal literal; \<open>flat_distance\<close> counts 100 km
  for a degree, where the platform computes the great circle.
\<close>

definition ascii_lower :: "jsstring \<Rightarrow> jsstring" where
  "ascii_lower s = map (\<lambda>c. if 65 \<le> unat c \<and> unat c \<le> 90 then c + 32 else c) s"

function natString :: "nat \<Rightarrow> jsstring" where
  "natString n = (if n < 10 then [of_nat (48 + n)]
                  else natString (n div 10) @ [of_nat (48 + n mod 10)])"
  by pat_completeness auto
termination
  by (relation "measure id") auto

definition print_number :: "jsnum \<Rightarrow> jsstring" where
  "print_number n =
     (case n of
        NaN \<Rightarrow> str ''NaN''
      | PosInf \<Rightarrow> str ''Infinity''
      | NegInf \<Rightarrow> str ''-Infinity''
      | Fin x \<Rightarrow> natString (nat \<lfloor>x\<rfloor>))"

definition read_float :: "jsval \<Rightarrow> jsnum" where
  "read_float v = (case v of JNum n \<Rightarrow> n | JStr s \<Rightarrow> Number_str s | _ \<Rightarrow> NaN)"

definition flat_distance :: "rat \<Rightarrow> rat \<Rightarrow> rat \<Rightarrow> rat \<Rightarrow> jsnum" where
  "flat_distance lat1 lon1 lat2 lon2 = Fin (100 * (\<bar>lat2 - lat1\<bar> + \<bar>lon2 - lon1\<bar>))"

text \<open>
  The first world has no key. RxNorm knows one concept, amoxicillin with identifier 723,
  and one misspelling of it; Nominatim knows Boston; Overpass returns four pharmacies,
  5 km, 1 km and 2.5 km away and one without coordinates.
\<close>

definition pharmacy :: "string \<Rightarrow> string \<Rightarrow> jsval \<Rightarrow> jsval \<Rightarrow> overpass_element" where
  "pharmacy i n la lo =
     \<lparr>oe_id = JStr (str i), oe_lat = la, oe_lon = lo,
      oe_center_lat = JUndefined, oe_center_lon = JUndefined,
      ot_name = JStr (str n), ot_housenumber = JUndefined, ot_street = JUndefined,
      ot_city = JUndefined, ot_postcode = JUndefined, ot_phone = JUndefined,
      ot_contact_phone = JUndefined\<rparr>"

definition demo_world :: world where
  "demo_world =
     \<lparr>toLowerCase = ascii_lower,
      numberToString = print_number,
      parseFloat = read_float,
      haversine = flat_distance,
      GEOAPIFY_KEY = None,
      rxnav_drugs = (\<lambda>m. if m = str ''Amoxicillin''
         then Inr (Some [\<lparr>conceptProperties = None\<rparr>,
                \<lparr>conceptProperties = Some [\<lparr>cp_rxcui = JStr (str ''723''),
                                           cp_name = JStr (str ''amoxicillin'')\<rparr>]\<rparr>])
         else Inr None),
      rxnav_spelling = (\<lambda>m. if m = str ''Amoxicilin'' then Inr (Some [str ''amoxicillin''])
         else Inr None),
      geoapify_geocode = (\<lambda>t. Inl (JsError (str ''no key'') None None)),
      nominatim_search = (\<lambda>t. if t = str ''Boston, MA''
         then Inr (Some \<lparr>n_lat = JStr (str ''42.36''), n_lon = JStr (str ''-71.06'')\<rparr>)
         else Inr None),
      geoapify_places = (\<lambda>la lo r. Inl (JsError (str ''no key'') None None)),
      overpass = (\<lambda>la lo r.
         Inr (Some
           [Some (pharmacy ''c0'' ''Corner Drug'' (JNum (Fin (4241 / 100))) (JNum (Fin (- 7106 / 100)))),
            Some (pharmacy ''bA'' ''Bay Apothecary'' JUndefined JUndefined),
            Some (pharmacy ''n1'' ''North Pharmacy'' (JNum (Fin (4237 / 100))) (JNum (Fin (- 7106 / 100)))),
            Some (pharmacy ''d0'' ''Downtown Rx'' (JNum (Fin (42385 / 1000))) (JNum (Fin (- 7106 / 100))))]))\<rparr>"

text \<open>
  The second world has a key. The Geoapify geocoder knows Boston; Geoapify Places returns
  three features: one with a distance of 5000 m, one with neither a distance nor
  coordinates, and one with a distance of 1000 m.
\<close>

definition feature :: "string \<Rightarrow> jsval \<Rightarrow> jsval \<Rightarrow> jsval \<Rightarrow> places_properties" where
  "feature i d la lo =
     \<lparr>pp_place_id = JStr (str i), pp_name = JUndefined, pp_formatted = JUndefined,
      pp_street = JUndefined, pp_city = JUndefined, pp_contact_phone = JUndefined,
      pp_distance = d, pp_lat = la, pp_lon = lo\<rparr>"

definition keyed_world :: world where
  "keyed_world =
     demo_world
       \<lparr>GEOAPIFY_KEY := Some (str ''key''),
        geoapify_geocode := (\<lambda>t. if t = str ''Boston, MA''
           then Inr (Some \<lparr>gf_properties =
                  Some \<lparr>lat = JNum (Fin (4236 / 100)), lon = JNum (Fin (- 7106 / 100))\<rparr>\<rparr>)
           else Inr None),
        geoapify_places := (\<lambda>la lo r.
           Inr (Some
             [Some (feature ''c0'' (JNum (Fin 5000)) (JNum (Fin (4241 / 100))) (JNum (Fin (- 7106 / 100)))),
              Some (feature ''bA'' JUndefined JUndefined JUndefined),
              Some (feature ''n1'' (JNum (Fin 1000)) (JNum (Fin (4237 / 100))) (JNum (Fin (- 7106 / 100))))]))\<rparr>"

definition empty_cache :: cache where
  "empty_cache = \<lparr>geocode = Map.empty, rxnorm = Map.empty\<rparr>"

definition demo_query :: query where
  "demo_query =
     \<lparr>q_med = Some (str ''Amoxicillin''), q_location = Some (str ''Boston, MA''),
      q_radius_km = None, q_price_min = None, q_price_max = None, q_stock = None, q_sort = None\<rparr>"

section \<open>The synthesizer: hash, price and stock\<close>

text \<open>
  The products and sums of the loop are whole numbers below \<open>2^53\<close>, so the doubles of
  the source hold them exactly before \<^verbatim>\<open>>>> 0\<close> reduces them.
\<close>

lemma seedNum_loop_bound: "h < 4294967296 \<Longrightarrow> seedNum_loop h s < 4294967296"
  by (induction s arbitrary: h) simp_all

lemma seedNum_step_exact:
  fixes c :: "16 word"
  assumes "h < 2 ^ 32"
  shows "h * 31 + unat c < 2 ^ 53"
proof -
  have "unat c < 2 ^ 16"
    using unsigned_less [of c, where 'a = nat] by simp
  with assms show ?thesis by simp
qed

lemma seedNum_loop_snoc:
  "seedNum_loop h (xs @ [x]) = (seedNum_loop h xs * 31 + unat x) mod 4294967296"
  by (induction xs arbitrary: h) simp_all

lemma poly_hash_snoc: "poly_hash (xs @ [x]) = poly_hash xs * 31 + ucast x"
proof -
  have "(\<Sum>i<length xs. ucast ((xs @ [x]) ! i) * (31::32 word) ^ (length xs - i))
      = (\<Sum>i<length xs. ucast (xs ! i) * 31 ^ (length xs - Suc i) * 31)"
  proof (rule sum.cong)
    fix i assume i: "i \<in> {..<length xs}"
    then have "length xs - i = Suc (length xs - Suc i)" by auto
    then show "ucast ((xs @ [x]) ! i) * (31::32 word) ^ (length xs - i)
      = ucast (xs ! i) * 31 ^ (length xs - Suc i) * 31"
      using i by (simp add: nth_append)
  qed simp
  then show ?thesis
    by (simp add: poly_hash_def nth_append sum_distrib_right)
qed

lemma unat_hash_step:
  fixes a :: "32 word" and x :: "16 word"
  shows "unat (a * 31 + ucast x) = (unat a * 31 + unat x) mod 4294967296"
proof -
  have "unat (ucast x :: 32 word) = unat x"
  proof -
    have "unat x < 2 ^ 16"
      using unsigned_less [of x, where 'a = nat] by simp
    then have "unat x < 2 ^ 32" by simp
    then show ?thesis by (simp add: unsigned_ucast_eq take_bit_nat_eq_self)
  qed
  then show ?thesis
    by (simp add: unat_word_ariths mod_simps)
qed

lemma seedNum_hash: "seedNum s = hash s"
  unfolding seedNum_def hash_def
proof (induction s rule: rev_induct)
  case Nil
  show ?case by (simp add: poly_hash_def)
next
  case (snoc x xs)
  then show ?case
    by (simp add: seedNum_loop_snoc poly_hash_snoc unat_hash_step)
qed

lemma toFixed2_cents:
  assumes "n < 10 ^ 23"
  shows "Number_toFixed2 (Fin (of_nat n / 100)) = Fin (of_nat n / 100)"
proof -
  have "\<lfloor>(of_nat n :: rat) + 1 / 2\<rfloor> = int n"
    by linarith
  moreover have "\<not> 10 ^ 21 \<le> \<bar>(of_nat n :: rat) / 100\<bar>"
    using assms by (simp add: divide_simps)
  ultimately show ?thesis by (simp add: sgn_if)
qed

text \<open>
  The doubles of the source carry the rounding errors of the division and of the sum.
  \<^verbatim>\<open>toFixed(2)\<close> prints the same cents for every value less than half a cent away:
\<close>

lemma toFixed2_stable:
  fixes e :: rat
  assumes n: "n < 10 ^ 23" and e: "\<bar>e\<bar> < 1 / 200"
  shows "Number_toFixed2 (Fin (of_nat n / 100 + e)) = Fin (of_nat n / 100)"
proof -
  let ?x = "of_nat n / 100 + e"
  from n have "n + 1 \<le> 10 ^ 23" by simp
  then have "(of_nat (n + 1) :: rat) \<le> of_nat (10 ^ 23)"
    by (simp only: of_nat_le_iff)
  then have nb: "(of_nat n :: rat) + 1 \<le> 10 ^ 23" by simp
  have small: "\<not> 10 ^ 21 \<le> \<bar>?x\<bar>"
    using nb e by (simp add: abs_if divide_simps split: if_splits)
  show ?thesis
  proof (cases "n = 0")
    case True
    have "\<lfloor>100 * \<bar>e\<bar> + 1 / 2\<rfloor> = 0"
      using e by (simp add: floor_eq_iff)
    with True small show ?thesis by simp
  next
    case False
    then have "(1 :: rat) \<le> of_nat n" by simp
    then have pos: "0 < ?x" using e by (simp add: abs_if divide_simps split: if_splits)
    have "\<lfloor>100 * ?x + 1 / 2\<rfloor> = int n"
      using e by (simp add: floor_eq_iff abs_if divide_simps split: if_splits)
    with pos small show ?thesis by (simp add: abs_if)
  qed
qed

lemma simulatePrice_cents:
  "simulatePrice d f = Fin (of_nat (1000 + 100 * (seedNum d mod 40) + seedNum f mod 200) / 100)"
proof -
  let ?n = "1000 + 100 * (seedNum d mod 40) + seedNum f mod 200"
  have "seedNum d mod 40 < 40" "seedNum f mod 200 < 200" by simp_all
  then have "?n < 100000" by linarith
  then have "?n < 10 ^ 23" by simp
  moreover have "simulatePrice d f = Number_toFixed2 (Fin (of_nat ?n / 100))"
    by (simp add: simulatePrice_def Let_def divide_simps)
  ultimately show ?thesis by (simp only: toFixed2_cents)
qed

text \<open>
  Below \<open>2^(53 - p)\<close> the multiples of \<open>2^(-p)\<close> are doubles, so a nearest double is
  within \<open>2^(-p)\<close>. Whatever nearest doubles the division by 100 and the sum come out as,
  the price printed and read back is the price of the model.
\<close>

lemma grid_double:
  fixes x :: rat
  assumes "0 \<le> x" and "x < 2 ^ (53 - p)" and "p \<le> 53"
  shows "is_double (of_int \<lfloor>x * 2 ^ p\<rfloor> / 2 ^ p)"
    and "\<bar>of_int \<lfloor>x * 2 ^ p\<rfloor> / 2 ^ p - x\<bar> \<le> 1 / 2 ^ p"
proof -
  let ?m = "\<lfloor>x * 2 ^ p\<rfloor>"
  have "x * 2 ^ p < 2 ^ (53 - p) * 2 ^ p"
    using assms(2) by simp
  also have "\<dots> = 2 ^ 53"
    using assms(3) by (simp flip: power_add)
  finally have "?m < 2 ^ 53"
    by (simp add: floor_less_iff)
  moreover have "0 \<le> ?m" using assms(1) by simp
  ultimately have "\<bar>?m\<bar> < 2 ^ 53" by simp
  moreover have "of_int ?m / 2 ^ p = (of_int ?m :: rat) * pow2 (- int p)"
    by (simp add: pow2_def)
  ultimately show "is_double (of_int ?m / 2 ^ p)"
    unfolding is_double_def using assms(3) by (intro exI [of _ ?m] exI [of _ "- int p"]) simp
  have "of_int ?m \<le> x * 2 ^ p" "x * 2 ^ p < of_int ?m + 1"
    by linarith+
  then have "of_int ?m / 2 ^ p \<le> x" "x < (of_int ?m + 1) / 2 ^ p"
    by (simp_all add: divide_simps)
  then show "\<bar>of_int ?m / 2 ^ p - x\<bar> \<le> 1 / 2 ^ p"
    by (simp add: abs_if add_divide_distrib)
qed

lemma nearest_double_error:
  fixes x :: rat
  assumes "nearest_double x y" and "0 \<le> x" and "x < 2 ^ (53 - p)" and "p \<le> 53"
  shows "\<bar>y - x\<bar> \<le> 1 / 2 ^ p"
  using assms(1) grid_double [OF assms(2-4)] unfolding nearest_double_def
  by (meson order_trans)

lemma toFixed2_doubles:
  assumes v: "nearest_double (of_nat k / 100) v"
    and s: "nearest_double (of_nat b + v) s"
    and k: "k < 200" and b: "10 \<le> b" "b < 50"
  shows "Number_toFixed2 (Fin s) = Fin (of_nat (100 * b + k) / 100)"
proof -
  have k2: "(0 :: rat) \<le> of_nat k / 100" "(of_nat k :: rat) / 100 < 2"
    using k by (simp_all add: divide_simps)
  have "\<bar>v - of_nat k / 100\<bar> \<le> 1 / 2 ^ 52"
    using nearest_double_error [OF v, of 52] k2 by simp
  also have "\<dots> \<le> 1 / 1000" by simp
  finally have ev: "\<bar>v - of_nat k / 100\<bar> \<le> 1 / 1000" .
  have b2: "(10 :: rat) \<le> of_nat b" "(of_nat b :: rat) \<le> 49"
    using b by simp_all
  have "(0 :: rat) \<le> of_nat b + v" "of_nat b + v < 64"
    using ev k2 b2 by linarith+
  then have x: "(0 :: rat) \<le> of_nat b + v" "of_nat b + v < 2 ^ (53 - 47)"
    by simp_all
  have "\<bar>s - (of_nat b + v)\<bar> \<le> 1 / 2 ^ 47"
    using nearest_double_error [OF s x] by simp
  also have "\<dots> \<le> 1 / 1000" by simp
  finally have es: "\<bar>s - (of_nat b + v)\<bar> \<le> 1 / 1000" .
  define e where "e = s - of_nat (100 * b + k) / 100"
  have "e = (s - (of_nat b + v)) + (v - of_nat k / 100)"
    by (simp add: e_def add_divide_distrib)
  then have "\<bar>e\<bar> \<le> 1 / 1000 + 1 / 1000"
    using ev es by linarith
  then have e: "\<bar>e\<bar> < 1 / 200" by simp
  have "100 * b + k < 10 ^ 23"
  proof -
    have "100 * b + k < 100000" using k b by linarith
    then show ?thesis by simp
  qed
  from toFixed2_stable [OF this e] show ?thesis
    by (simp add: e_def)
qed

lemma simulatePrice_doubles:
  assumes "nearest_double (of_nat (seedNum f mod 200) / 100) v"
    and "nearest_double (of_nat (10 + seedNum d mod 40) + v) s"
  shows "Number_toFixed2 (Fin s) = simulatePrice d f"
proof -
  have "seedNum f mod 200 < 200" "10 \<le> 10 + seedNum d mod 40" "10 + seedNum d mod 40 < 50"
    by simp_all
  from toFixed2_doubles [OF assms this] show ?thesis
    by (simp add: simulatePrice_cents)
qed

text \<open>
  C1. For all identifier strings, the price is \<open>10 + (hash drugId mod 40) +
  (hash facilityId mod 200) / 100\<close>, where \<open>hash\<close> is the polynomial hash with multiplier
  31 in unsigned 32-bit arithmetic; this is a whole number of cents, so that rounding to two
  decimals leaves it as it is; and it lies in \<open>[10, 52)\<close>. \<open>simulatePrice\<close> is a total
  function of its two arguments: equal inputs give equal outputs, and no input fails.
  By \<open>simulatePrice_doubles\<close> the rounding of the doubles does not change the result.
\<close>

theorem simulatePrice_formula:
  "simulatePrice drugId facilityId
     = Fin (10 + of_nat (hash drugId mod 40) + of_nat (hash facilityId mod 200) / 100)
   \<and> simulatePrice drugId facilityId
     = Fin (of_nat (1000 + 100 * (hash drugId mod 40) + hash facilityId mod 200) / 100)
   \<and> js_le (Fin 10) (simulatePrice drugId facilityId)
   \<and> js_lt (simulatePrice drugId facilityId) (Fin 52)"
proof -
  let ?a = "hash drugId mod 40" and ?b = "hash facilityId mod 200"
  have cents: "simulatePrice drugId facilityId = Fin (of_nat (1000 + 100 * ?a + ?b) / 100)"
    by (simp only: simulatePrice_cents seedNum_hash)
  have ab: "?a < 40" "?b < 200" by simp_all
  have sum: "(of_nat (1000 + 100 * ?a + ?b) / 100 :: rat) = 10 + of_nat ?a + of_nat ?b / 100"
    by (simp add: divide_simps)
  have lo: "(10 :: rat) \<le> of_nat (1000 + 100 * ?a + ?b) / 100"
    by (simp add: divide_simps)
  have "1000 + 100 * ?a + ?b < 5200"
    using ab by linarith
  then have "(of_nat (1000 + 100 * ?a + ?b) :: rat) < of_nat 5200"
    by (simp only: of_nat_less_iff)
  then have hi: "(of_nat (1000 + 100 * ?a + ?b) / 100 :: rat) < 52"
    by (simp add: divide_simps)
  show ?thesis
    using lo hi by (simp add: cents sum js_lt_def)
qed

lemma stock_strings_distinct:
  "str ''out_of_stock'' \<noteq> str ''low_stock''"
  "str ''out_of_stock'' \<noteq> str ''in_stock''"
  "str ''low_stock'' \<noteq> str ''in_stock''"
  by (simp_all add: str_def)

text \<open>
  C8. For every facility identifier, the availability is fixed by \<open>v = hash facilityId mod
  100\<close>, a number below 100: \<open>out_of_stock\<close> exactly when \<open>v < 10\<close>, \<open>low_stock\<close> exactly
  when \<open>10 \<le> v < 35\<close>, and \<open>in_stock\<close> exactly when \<open>35 \<le> v\<close>.
\<close>

theorem simulateStock_partition:
  "simulateStock facilityId
     = (if hash facilityId mod 100 < 10 then str ''out_of_stock''
        else if hash facilityId mod 100 < 35 then str ''low_stock''
        else str ''in_stock'')
   \<and> hash facilityId mod 100 < 100
   \<and> (simulateStock facilityId = str ''out_of_stock'') = (hash facilityId mod 100 < 10)
   \<and> (simulateStock facilityId = str ''low_stock'')
       = (10 \<le> hash facilityId mod 100 \<and> hash facilityId mod 100 < 35)
   \<and> (simulateStock facilityId = str ''in_stock'') = (35 \<le> hash facilityId mod 100)"
proof -
  have def: "simulateStock facilityId
     = (if hash facilityId mod 100 < 10 then str ''out_of_stock''
        else if hash facilityId mod 100 < 35 then str ''low_stock''
        else str ''in_stock'')"
    by (simp add: simulateStock_def Let_def seedNum_hash)
  show ?thesis
    unfolding def using stock_strings_distinct
    by (auto simp del: str_def)
qed

section \<open>Array.prototype.sort\<close>

text \<open>The sorted array has the elements of the given one, each as often.\<close>

lemma mset_js_insert: "mset (js_insert cmp x ys) = add_mset x (mset ys)"
  by (induction ys) auto

lemma mset_Array_sort: "mset (Array_sort cmp xs) = mset xs"
  by (induction xs) (simp_all add: Array_sort_def mset_js_insert)

lemma set_js_insert: "set (js_insert cmp x ys) = insert x (set ys)"
  by (induction ys) auto

lemma set_Array_sort: "set (Array_sort cmp xs) = set xs"
  by (induction xs) (simp_all add: Array_sort_def set_js_insert)

lemma set_sortItems: "set (sortItems sb its) = set its"
  by (simp add: sortItems_def set_Array_sort)

lemma sortItems_Nil: "sortItems sb [] = []"
  by (simp add: sortItems_def Array_sort_def)

text \<open>
  When, on the elements of a set \<open>A\<close>, the comparator is above 0 exactly where a total
  preorder \<open>le\<close> fails, the result for elements of \<open>A\<close> is sorted by \<open>le\<close>.
\<close>

lemma sorted_js_insert:
  assumes gt: "\<And>a b. a \<in> A \<Longrightarrow> b \<in> A \<Longrightarrow> js_lt (Fin 0) (cmp a b) = (\<not> le a b)"
    and total: "\<And>a b. a \<in> A \<Longrightarrow> b \<in> A \<Longrightarrow> le a b \<or> le b a"
    and trans: "\<And>a b c. a \<in> A \<Longrightarrow> b \<in> A \<Longrightarrow> c \<in> A \<Longrightarrow> le a b \<Longrightarrow> le b c \<Longrightarrow> le a c"
    and x: "x \<in> A"
  shows "set ys \<subseteq> A \<Longrightarrow> sorted_wrt le ys \<Longrightarrow> sorted_wrt le (js_insert cmp x ys)"
proof (induction ys)
  case Nil
  show ?case by simp
next
  case (Cons y ys)
  then have y: "y \<in> A" and ys: "set ys \<subseteq> A" by simp_all
  show ?case
  proof (cases "le x y")
    case True
    have "le x z" if "z \<in> set ys" for z
    proof -
      from that Cons.prems have "le y z" by simp
      with True show ?thesis
        using trans [OF x y] that ys by blast
    qed
    with True Cons.prems show ?thesis
      by (simp add: gt [OF x y])
  next
    case False
    then have "le y x" using total [OF x y] by blast
    with False Cons ys show ?thesis
      by (auto simp: gt [OF x y] set_js_insert)
  qed
qed

lemma sorted_Array_sort:
  assumes gt: "\<And>a b. a \<in> A \<Longrightarrow> b \<in> A \<Longrightarrow> js_lt (Fin 0) (cmp a b) = (\<not> le a b)"
    and total: "\<And>a b. a \<in> A \<Longrightarrow> b \<in> A \<Longrightarrow> le a b \<or> le b a"
    and trans: "\<And>a b c. a \<in> A \<Longrightarrow> b \<in> A \<Longrightarrow> c \<in> A \<Longrightarrow> le a b \<Longrightarrow> le b c \<Longrightarrow> le a c"
  shows "set xs \<subseteq> A \<Longrightarrow> sorted_wrt le (Array_sort cmp xs)"
proof (induction xs)
  case Nil
  show ?case by (simp add: Array_sort_def)
next
  case (Cons x xs)
  then have x: "x \<in> A" and xs: "set (Array_sort cmp xs) \<subseteq> A"
    by (simp_all add: set_Array_sort)
  have "Array_sort cmp (x # xs) = js_insert cmp x (Array_sort cmp xs)"
    by (simp add: Array_sort_def)
  with Cons show ?case
    using sorted_js_insert [of A cmp le, OF gt total trans x xs] by simp
qed

text \<open>
  The distance comparator \<^verbatim>\<open>(a.distance_km ?? Infinity) - (b.distance_km ?? Infinity)\<close>
  on regular distances: above 0 exactly where the distance order fails. Two absent
  distances give \<^verbatim>\<open>Infinity - Infinity\<close>, which is NaN and counts as 0.
\<close>

lemma regular_distance_cases:
  assumes "regular_distance d"
  obtains "d = None" | x where "d = Some (Fin x)"
  using assms by (auto simp: regular_distance_def split: option.splits jsnum.splits)

lemma distance_cmp:
  assumes "regular_distance a" and "regular_distance b"
  shows "js_lt (Fin 0) (js_sub (orInfinity a) (orInfinity b)) = (\<not> distance_le a b)"
  using assms(1)
proof (cases rule: regular_distance_cases)
  case 1
  with assms(2) show ?thesis
    by (cases rule: regular_distance_cases)
      (auto simp: js_lt_def js_sub_def orInfinity_def distance_le_def)
next
  case (2 x)
  with assms(2) show ?thesis
    by (cases rule: regular_distance_cases)
      (auto simp: js_lt_def js_sub_def orInfinity_def distance_le_def)
qed

lemma distance_le_total:
  assumes "regular_distance a" and "regular_distance b"
  shows "distance_le a b \<or> distance_le b a"
  using assms
  by (auto simp: distance_le_def elim!: regular_distance_cases)

lemma distance_le_trans:
  assumes "regular_distance a" and "regular_distance b" and "regular_distance c"
    and "distance_le a b" and "distance_le b c"
  shows "distance_le a c"
  using assms
  by (auto simp: distance_le_def elim!: regular_distance_cases)

lemma sortItems_distance:
  assumes "\<forall>i\<in>set its. regular_distance (distance_km i)"
  shows "distance_sorted (sortItems (str ''distance'') its)"
proof -
  have neq: "str ''distance'' \<noteq> str ''price_asc''" "str ''distance'' \<noteq> str ''price_desc''"
    by (simp_all add: str_def)
  have "sorted_wrt (\<lambda>a b. distance_le (distance_km a) (distance_km b))
     (Array_sort (\<lambda>a b. js_sub (orInfinity (distance_km a)) (orInfinity (distance_km b))) its)"
  proof (rule sorted_Array_sort [where A = "{i. regular_distance (distance_km i)}"])
    show "set its \<subseteq> {i. regular_distance (distance_km i)}"
      using assms by blast
  qed (auto simp: distance_cmp dest: distance_le_total elim: distance_le_trans)
  then show ?thesis
    using neq by (simp add: sortItems_def distance_sorted_def)
qed

lemma distance_sorted_nth:
  assumes "distance_sorted its" and "i < j" and "j < length its"
  shows "distance_le (distance_km (its ! i)) (distance_km (its ! j))"
  using assms by (simp add: distance_sorted_def sorted_wrt_iff_nth_less)

section \<open>Evaluation on the example worlds\<close>

lemma floor_numeral_div: "\<lfloor>(numeral a :: rat) / numeral b\<rfloor> = numeral a div numeral b"
  using floor_divide_of_int_eq [of "numeral a" "numeral b", where ?'a = rat] by simp

lemmas number_defs = Number_str_def parseNonDecimal_def parseUnsignedDecimal_def parseExponent_def
  digitsValue_def isDigitOf_def digitValue_def isDigit_def pow10_def

lemmas demo_defs = search_def rxnormLookup_def geocodeText_def findPharmacies_def demo_world_def
  keyed_world_def keySet_def pharmacy_def feature_def overpassPlace_def geoapifyPlace_def
  haversineKm_def flat_distance_def read_float_def print_number_def nameMatches_def propsOf_def
  truthy_def orVal_def nullishOr_def ToNumber_def ToString_def
  empty_cache_def demo_query_def orElse_def ascii_lower_def trim_def isWhiteSpace_def
  str_def Let_def radiusMeters_def radiusKm_def priceMin_def priceMax_def priceBound_def
  stockFilter_def sortBy_def enrich_def filterItems_def sortItems_def Array_sort_def orInfinity_def
  send_def simulatePrice_cents simulateStock_def seedNum_def Math_min_def Math_max_def js_sub_def
  js_lt_def js_ge_def reply_items_def reply_total_def place.defs item.defs floor_numeral_div

lemma demo_distances:
  "map distance_km (reply_items (fst (search demo_world empty_cache demo_query)))
     = [Some (Fin 1), Some (Fin (5 / 2)), Some (Fin 5), None]"
  by (simp add: demo_defs number_defs)

lemma keyed_distances:
  "map distance_km (reply_items (fst (search keyed_world empty_cache demo_query)))
     = [Some (Fin 5), Some NaN, Some (Fin 1)]"
  by (simp add: demo_defs number_defs)

section \<open>The medicine resolver\<close>

text \<open>
  The scan of one group returns the first entry whose name is the key; without one, the
  entry it held, or else the first entry of the group.
\<close>

lemma scanProps_find:
  "scanProps w key best ps =
     (case find (nameMatches w key) ps of
        Some m \<Rightarrow> Some m
      | None \<Rightarrow> (case best of Some b \<Rightarrow> Some b
                 | None \<Rightarrow> (case ps of [] \<Rightarrow> None | p # _ \<Rightarrow> Some p)))"
  by (induction ps arbitrary: best) (auto simp: Let_def split: option.splits list.splits)

lemma find_Some_D: "find P xs = Some m \<Longrightarrow> P m \<and> m \<in> set xs"
  by (induction xs) (auto split: if_splits)

lemma find_None_list_ex: "(find P xs = None) = (\<not> list_ex P xs)"
  by (induction xs) auto

lemma firstOf_append: "firstOf (firstOf best xs) ys = firstOf best (xs @ ys)"
  by (cases best; cases xs) (simp_all add: firstOf_def)

lemma scanGroups_none:
  "\<not> list_ex (nameMatches w key) (concat (map propsOf gs)) \<Longrightarrow>
   scanGroups w key best gs = firstOf best (concat (map propsOf gs))"
proof (induction gs arbitrary: best)
  case Nil
  show ?case by (simp add: firstOf_def split: option.splits)
next
  case (Cons g gs)
  from Cons.prems have no: "find (nameMatches w key) (propsOf g) = None"
    and rest: "\<not> list_ex (nameMatches w key) (concat (map propsOf gs))"
    by (simp_all add: find_None_list_ex)
  have "scanProps w key best (propsOf g) = firstOf best (propsOf g)"
    by (simp add: scanProps_find no firstOf_def)
  then show ?case
    using Cons.IH [OF rest] by (simp add: firstOf_append)
qed

lemma scanGroups_match:
  "list_ex (nameMatches w key) (concat (map propsOf gs)) \<Longrightarrow>
   \<exists>b. scanGroups w key best gs = Some b \<and> nameMatches w key b \<and> b \<in> set (concat (map propsOf gs))"
proof (induction gs arbitrary: best)
  case Nil
  then show ?case by simp
next
  case (Cons g gs)
  show ?case
  proof (cases "list_ex (nameMatches w key) (concat (map propsOf gs))")
    case True
    from Cons.IH [OF True, of "scanProps w key best (propsOf g)"] show ?thesis
      by auto
  next
    case False
    with Cons.prems have "find (nameMatches w key) (propsOf g) \<noteq> None"
      by (simp add: find_None_list_ex)
    then obtain m where m: "find (nameMatches w key) (propsOf g) = Some m"
      by blast
    then have "scanProps w key best (propsOf g) = Some m"
      by (simp add: scanProps_find)
    then have "scanGroups w key best (g # gs) = Some m"
      using scanGroups_none [OF False, of "Some m"] by (simp add: firstOf_def)
    with find_Some_D [OF m] show ?thesis
      by simp
  qed
qed

lemma scanGroups_cases:
  obtains "concat (map propsOf gs) = []" and "scanGroups w key None gs = None"
  | best where "scanGroups w key None gs = Some best" and "best \<in> set (concat (map propsOf gs))"
      and "if list_ex (nameMatches w key) (concat (map propsOf gs))
           then nameMatches w key best else best = hd (concat (map propsOf gs))"
proof (cases "list_ex (nameMatches w key) (concat (map propsOf gs))")
  case True
  from scanGroups_match [OF True, of None] obtain b where
    "scanGroups w key None gs = Some b" "nameMatches w key b" "b \<in> set (concat (map propsOf gs))"
    by blast
  with True that(2) [of b] show ?thesis
    by (simp only: if_True)
next
  case False
  note none = scanGroups_none [OF False, of None]
  show ?thesis
  proof (cases "concat (map propsOf gs)")
    case Nil
    with none that(1) show ?thesis by (simp add: firstOf_def)
  next
    case (Cons p ps)
    then have "scanGroups w key None gs = Some p" "p \<in> set (concat (map propsOf gs))"
      "p = hd (concat (map propsOf gs))"
      using none by (simp_all add: firstOf_def del: set_concat)
    with False that(2) [of p] show ?thesis
      by (simp only: if_False)
  qed
qed

text \<open>
  A payload that \<^verbatim>\<open>rxnormLookup\<close> returns is the cached one, or a new one that is
  cached under the key: built from the entry that the scan chose, or, when the scan chose
  none, from the spelling answer.
\<close>

lemma rxnormLookup_cases:
  assumes "rxnormLookup w c med = (Inr d, c')"
  shows "(rxnorm c (toLowerCase w (trim med)) = Some d \<and> c' = c)
       \<or> (rxnorm c (toLowerCase w (trim med)) = None
           \<and> c' = c\<lparr>rxnorm := (rxnorm c)(toLowerCase w (trim med) \<mapsto> d)\<rparr>
           \<and> (\<exists>cg. rxnav_drugs w med = Inr cg
                \<and> ((scanGroups w (toLowerCase w (trim med)) None
                        (case cg of None \<Rightarrow> [] | Some groups \<Rightarrow> groups) = None
                     \<and> (\<exists>sl. rxnav_spelling w med = Inr sl
                           \<and> d = \<lparr>rxcui = JNull, name = JNull,
                                  suggestions = (case sl of None \<Rightarrow> [] | Some l \<Rightarrow> l)\<rparr>))
                   \<or> (\<exists>best. scanGroups w (toLowerCase w (trim med)) None
                           (case cg of None \<Rightarrow> [] | Some groups \<Rightarrow> groups) = Some best
                        \<and> d = \<lparr>rxcui = cp_rxcui best, name = cp_name best, suggestions = []\<rparr>))))"
proof -
  let ?key = "toLowerCase w (trim med)"
  let ?gs = "case cg of None \<Rightarrow> [] | Some groups \<Rightarrow> groups"
  show ?thesis
  proof (cases "rxnorm c ?key")
    case (Some p)
    with assms show ?thesis by (simp add: rxnormLookup_def)
  next
    case miss: None
    show ?thesis
    proof (cases "rxnav_drugs w med")
      case (Inl e)
      with miss assms show ?thesis by (simp add: rxnormLookup_def)
    next
      case drugs: (Inr cg)
      show ?thesis
      proof (cases "scanGroups w ?key None (case cg of None \<Rightarrow> [] | Some groups \<Rightarrow> groups)")
        case none: None
        show ?thesis
        proof (cases "rxnav_spelling w med")
          case (Inl e)
          with miss drugs none assms show ?thesis by (simp add: rxnormLookup_def)
        next
          case (Inr sl)
          with miss drugs none assms show ?thesis
            by (auto simp: rxnormLookup_def Let_def)
        qed
      next
        case (Some best)
        with miss drugs assms show ?thesis
          by (auto simp: rxnormLookup_def Let_def)
      qed
    qed
  qed
qed

text \<open>
  C4, as the code has it. The claim asks that the identifier is present exactly when the
  name is, and exactly when there are no suggestions, so that a payload without identifier
  has suggestions. The source: a payload that \<^verbatim>\<open>rxnormLookup\<close> returns is the cached one,
  or a new one, cached under the key, of one of two shapes. When the RxNorm answer has no
  candidate, identifier and name are \<^verbatim>\<open>null\<close> and the suggestions are exactly those of
  the spelling answer, \<^verbatim>\<open>[]\<close> when it has none: here the claim fails by design. When the
  answer has a candidate, identifier and name are those of the chosen candidate, copied as
  they are, and there are no suggestions; the chosen candidate is one whose name is the
  key when there is such a candidate, and the first candidate otherwise. Of every payload
  returned \<open>drug_ok\<close> holds: one with suggestions has neither identifier nor name; and it
  holds of every payload in the cache afterwards, if it held of every payload before.
\<close>

theorem rxnormLookup_resolution:
  assumes inv: "\<forall>k d0. rxnorm c k = Some d0 \<longrightarrow> drug_ok d0"
    and run: "rxnormLookup w c med = (Inr d, c')"
  shows "((rxnorm c (toLowerCase w (trim med)) = Some d \<and> c' = c)
        \<or> (rxnorm c (toLowerCase w (trim med)) = None
            \<and> c' = c\<lparr>rxnorm := (rxnorm c)(toLowerCase w (trim med) \<mapsto> d)\<rparr>
            \<and> (\<exists>cg. rxnav_drugs w med = Inr cg
                 \<and> ((candidates cg = []
                      \<and> (\<exists>sl. rxnav_spelling w med = Inr sl
                            \<and> d = \<lparr>rxcui = JNull, name = JNull,
                                   suggestions = (case sl of None \<Rightarrow> [] | Some l \<Rightarrow> l)\<rparr>))
                    \<or> (\<exists>best\<in>set (candidates cg).
                          d = \<lparr>rxcui = cp_rxcui best, name = cp_name best, suggestions = []\<rparr>
                        \<and> (if list_ex (nameMatches w (toLowerCase w (trim med))) (candidates cg)
                            then nameMatches w (toLowerCase w (trim med)) best
                            else best = hd (candidates cg)))))))
       \<and> drug_ok d
       \<and> (\<forall>k d0. rxnorm c' k = Some d0 \<longrightarrow> drug_ok d0)"
proof -
  let ?key = "toLowerCase w (trim med)"
  from rxnormLookup_cases [OF run] show ?thesis
  proof (elim disjE conjE exE)
    assume "rxnorm c ?key = Some d" and "c' = c"
    with inv show ?thesis by blast
  next
    fix cg sl
    assume miss: "rxnorm c ?key = None"
      and c': "c' = c\<lparr>rxnorm := (rxnorm c)(?key \<mapsto> d)\<rparr>"
      and cg: "rxnav_drugs w med = Inr cg"
      and scan: "scanGroups w ?key None (case cg of None \<Rightarrow> [] | Some groups \<Rightarrow> groups) = None"
      and sl: "rxnav_spelling w med = Inr sl"
      and d: "d = \<lparr>rxcui = JNull, name = JNull, suggestions = (case sl of None \<Rightarrow> [] | Some l \<Rightarrow> l)\<rparr>"
    have "candidates cg = []"
      using scan unfolding candidates_def
      by (rule_tac scanGroups_cases [of "case cg of None \<Rightarrow> [] | Some groups \<Rightarrow> groups" w ?key]) simp_all
    moreover have "drug_ok d" by (simp add: d drug_ok_def)
    moreover have "\<forall>k d0. rxnorm c' k = Some d0 \<longrightarrow> drug_ok d0"
      using inv \<open>drug_ok d\<close> by (simp add: c')
    ultimately show ?thesis
      using miss c' cg sl d by blast
  next
    fix cg best
    assume miss: "rxnorm c ?key = None"
      and c': "c' = c\<lparr>rxnorm := (rxnorm c)(?key \<mapsto> d)\<rparr>"
      and cg: "rxnav_drugs w med = Inr cg"
      and scan: "scanGroups w ?key None (case cg of None \<Rightarrow> [] | Some groups \<Rightarrow> groups) = Some best"
      and d: "d = \<lparr>rxcui = cp_rxcui best, name = cp_name best, suggestions = []\<rparr>"
    have "best \<in> set (candidates cg)
        \<and> (if list_ex (nameMatches w ?key) (candidates cg)
            then nameMatches w ?key best else best = hd (candidates cg))"
      using scan unfolding candidates_def
      by (rule_tac scanGroups_cases [of "case cg of None \<Rightarrow> [] | Some groups \<Rightarrow> groups" w ?key])
        (simp_all del: set_concat)
    moreover have "drug_ok d" by (simp add: d drug_ok_def)
    moreover have "\<forall>k d0. rxnorm c' k = Some d0 \<longrightarrow> drug_ok d0"
      using inv \<open>drug_ok d\<close> by (simp add: c')
    ultimately show ?thesis
      using miss c' cg d by blast
  qed
qed

text \<open>
  The resolution at work: after \<open>Amoxicillin\<close> was looked up and cached, the misspelt
  \<open>Amoxicilin\<close> gets a payload without identifier and with the one suggestion of the
  spelling answer.
\<close>

theorem rxnormLookup_resolution_witness:
  "fst (rxnormLookup demo_world
          (snd (rxnormLookup demo_world empty_cache (str ''Amoxicillin''))) (str ''Amoxicilin''))
     = Inr \<lparr>rxcui = JNull, name = JNull, suggestions = [str ''amoxicillin'']\<rparr>
   \<and> drug_ok \<lparr>rxcui = JNull, name = JNull, suggestions = [str ''amoxicillin'']\<rparr>
   \<and> rxnorm (snd (rxnormLookup demo_world empty_cache (str ''Amoxicillin''))) (str ''amoxicillin'')
     = Some \<lparr>rxcui = JStr (str ''723''), name = JStr (str ''amoxicillin''), suggestions = []\<rparr>"
proof -
  define c1 where "c1 = snd (rxnormLookup demo_world empty_cache (str ''Amoxicillin''))"
  define d where "d = \<lparr>rxcui = JNull, name = JNull, suggestions = [str ''amoxicillin'']\<rparr>"
  have c1: "c1 = \<lparr>geocode = Map.empty,
      rxnorm = [str ''amoxicillin'' \<mapsto>
        \<lparr>rxcui = JStr (str ''723''), name = JStr (str ''amoxicillin''), suggestions = []\<rparr>]\<rparr>"
    by (simp add: c1_def demo_defs)
  have inv: "\<forall>k d0. rxnorm c1 k = Some d0 \<longrightarrow> drug_ok d0"
    by (auto simp: c1 drug_ok_def split: if_splits)
  have res: "fst (rxnormLookup demo_world c1 (str ''Amoxicilin'')) = Inr d"
    by (simp add: c1 d_def demo_defs)
  then have run: "rxnormLookup demo_world c1 (str ''Amoxicilin'')
      = (Inr d, snd (rxnormLookup demo_world c1 (str ''Amoxicilin'')))"
    by (metis prod.collapse)
  note rxnormLookup_resolution [OF inv run, THEN conjunct2, THEN conjunct1]
  then have "drug_ok d" .
  moreover have "rxnorm c1 (str ''amoxicillin'')
     = Some \<lparr>rxcui = JStr (str ''723''), name = JStr (str ''amoxicillin''), suggestions = []\<rparr>"
    by (simp add: c1)
  ultimately show ?thesis
    using res unfolding c1_def d_def by simp
qed

text \<open>
  Where the claim fails: RxNorm knows nothing like \<open>Zzzquil\<close>, neither a concept nor a
  spelling suggestion. The payload has no identifier, and its suggestions are empty.
\<close>

theorem rxnormLookup_no_suggestions:
  "fst (rxnormLookup demo_world empty_cache (str ''Zzzquil''))
     = Inr \<lparr>rxcui = JNull, name = JNull, suggestions = []\<rparr>"
  by (simp add: demo_defs)

text \<open>
  Identifier and name are copied unchecked: of a candidate with an identifier and without
  a name, the payload has the identifier and no name.
\<close>

lemma rxnormLookup_nameless:
  "fst (rxnormLookup
         (demo_world\<lparr>rxnav_drugs := (\<lambda>m. Inr (Some [\<lparr>conceptProperties =
            Some [\<lparr>cp_rxcui = JStr (str ''723''), cp_name = JUndefined\<rparr>]\<rparr>]))\<rparr>)
         empty_cache (str ''Amoxicillin''))
     = Inr \<lparr>rxcui = JStr (str ''723''), name = JUndefined, suggestions = []\<rparr>"
  by (simp add: demo_defs)

text \<open>
  The lookup fails exactly when the key is not cached and a request fails: the request for
  the concepts, or, when the answer has no candidate, the request for the spellings.
\<close>

lemma scanGroups_None: "(scanGroups w key None gs = None) = (concat (map propsOf gs) = [])"
  by (rule scanGroups_cases [of gs w key]) (auto simp del: concat_eq_Nil_conv set_concat)

lemma rxnormLookup_fails:
  "(\<exists>err c1. rxnormLookup w c med = (Inl err, c1))
     = (rxnorm c (toLowerCase w (trim med)) = None
        \<and> ((\<exists>e. rxnav_drugs w med = Inl e)
           \<or> (\<exists>cg e. rxnav_drugs w med = Inr cg \<and> candidates cg = []
                 \<and> rxnav_spelling w med = Inl e)))"
proof (cases "rxnorm c (toLowerCase w (trim med))")
  case (Some p)
  then show ?thesis by (simp add: rxnormLookup_def)
next
  case miss: None
  show ?thesis
  proof (cases "rxnav_drugs w med")
    case (Inl e)
    with miss show ?thesis by (simp add: rxnormLookup_def)
  next
    case drugs: (Inr cg)
    show ?thesis
    proof (cases "scanGroups w (toLowerCase w (trim med)) None
                    (case cg of None \<Rightarrow> [] | Some groups \<Rightarrow> groups)")
      case none: None
      then have "candidates cg = []"
        by (simp only: scanGroups_None candidates_def)
      with miss drugs none show ?thesis
        by (cases "rxnav_spelling w med") (simp_all add: rxnormLookup_def Let_def)
    next
      case (Some best)
      then have "candidates cg \<noteq> []"
        using scanGroups_None [of w "toLowerCase w (trim med)"
            "case cg of None \<Rightarrow> [] | Some groups \<Rightarrow> groups"]
        by (simp only: candidates_def) simp
      with miss drugs Some show ?thesis
        by (simp add: rxnormLookup_def Let_def)
    qed
  qed
qed

text \<open>
  The geocoder finds no location exactly when the key is not cached and the answer of the
  configured provider has no entry.
\<close>

lemma geocodeText_not_found:
  "(fst (geocodeText w c t) = Inr None)
     = (geocode c (toLowerCase w (trim t)) = None
        \<and> (if keySet w then geoapify_geocode w t = Inr None else nominatim_search w t = Inr None))"
  by (auto simp: geocodeText_def Let_def split: option.splits sum.splits)

section \<open>The handler: outcomes\<close>

text \<open>
  Every error that the three upstream functions throw was made by \<^verbatim>\<open>upstreamError\<close>, and
  a function that throws leaves the caches as they were. Such an error has no
  \<^verbatim>\<open>response\<close>, so the \<^verbatim>\<open>catch\<close> block answers 502 with its message.
\<close>

lemma rxnormLookup_error:
  "rxnormLookup w c med = (Inl err, c1) \<Longrightarrow>
     \<exists>e. err = upstreamError (str ''RxNorm lookup failed'') e"
  by (auto simp: rxnormLookup_def Let_def split: option.splits sum.splits)

lemma geocodeText_error:
  "geocodeText w c t = (Inl err, c1) \<Longrightarrow> \<exists>e. err = upstreamError (str ''Geocoding failed'') e"
  by (auto simp: geocodeText_def Let_def split: option.splits sum.splits if_splits)

lemma findPharmacies_error:
  "findPharmacies w la lo r = Inl err \<Longrightarrow> \<exists>e. err = upstreamError (str ''Pharmacy search failed'') e"
  by (auto simp: findPharmacies_def split: sum.splits option.splits if_splits)

lemma sendError_upstream:
  "sendError (upstreamError m e)
     = send 502 (DetailsBody \<lparr>d_status = 502,
         d_error = (if m \<noteq> [] then m else str ''Unknown error''), d_data = None\<rparr>)"
  by (simp add: sendError_def extractError_def upstreamError_def Let_def)

lemma upstream_messages:
  "str ''RxNorm lookup failed'' \<noteq> []" "str ''Geocoding failed'' \<noteq> []"
  "str ''Pharmacy search failed'' \<noteq> []"
  by (simp_all add: str_def)

lemma reply_items_send: "reply_items (send st (ResultBody res)) = items res"
  by (simp add: reply_items_def send_def)

lemma reply_total_send: "reply_total (send st (ResultBody res)) = Some (total res)"
  by (simp add: reply_total_def send_def)

text \<open>The reply of the handler for each way through the pipeline.\<close>

lemma search_missing_med:
  "trim (orElse (q_med q) []) = [] \<Longrightarrow>
   search w c q = (send 400 (ErrorBody (str ''Missing parameter: med'')), c)"
  by (simp add: search_def Let_def)

lemma search_missing_location:
  "trim (orElse (q_med q) []) \<noteq> [] \<Longrightarrow> trim (orElse (q_location q) []) = [] \<Longrightarrow>
   search w c q = (send 400 (ErrorBody (str ''Missing parameter: location'')), c)"
  by (simp add: search_def Let_def)

lemma search_rxnorm_failed:
  assumes "trim (orElse (q_med q) []) \<noteq> []" and "trim (orElse (q_location q) []) \<noteq> []"
    and "rxnormLookup w c (trim (orElse (q_med q) []))
           = (Inl (upstreamError (str ''RxNorm lookup failed'') e), c1)"
  shows "search w c q = (send 502 (DetailsBody
           \<lparr>d_status = 502, d_error = str ''RxNorm lookup failed'', d_data = None\<rparr>), c1)"
  using assms by (simp add: search_def Let_def sendError_upstream upstream_messages)

lemma search_invalid_medicine:
  assumes "trim (orElse (q_med q) []) \<noteq> []" and "trim (orElse (q_location q) []) \<noteq> []"
    and "rxnormLookup w c (trim (orElse (q_med q) [])) = (Inr dr, c1)"
    and "\<not> truthy (rxcui dr)"
  shows "search w c q
           = (send 400 (SuggestionsBody (str ''Invalid medicine name'') (suggestions dr)), c1)"
  using assms by (simp add: search_def Let_def)

lemma search_geocode_failed:
  assumes "trim (orElse (q_med q) []) \<noteq> []" and "trim (orElse (q_location q) []) \<noteq> []"
    and "rxnormLookup w c (trim (orElse (q_med q) [])) = (Inr dr, c1)"
    and "truthy (rxcui dr)"
    and "geocodeText w c1 (trim (orElse (q_location q) []))
           = (Inl (upstreamError (str ''Geocoding failed'') e), c2)"
  shows "search w c q = (send 502 (DetailsBody
           \<lparr>d_status = 502, d_error = str ''Geocoding failed'', d_data = None\<rparr>), c2)"
  using assms by (simp add: search_def Let_def sendError_upstream upstream_messages)

lemma search_not_found:
  assumes "trim (orElse (q_med q) []) \<noteq> []" and "trim (orElse (q_location q) []) \<noteq> []"
    and "rxnormLookup w c (trim (orElse (q_med q) [])) = (Inr dr, c1)"
    and "truthy (rxcui dr)"
    and "geocodeText w c1 (trim (orElse (q_location q) [])) = (Inr None, c2)"
  shows "search w c q = (send 404 (ErrorBody (str ''Location not found'')), c2)"
  using assms by (simp add: search_def Let_def)

lemma search_pharmacies_failed:
  assumes "trim (orElse (q_med q) []) \<noteq> []" and "trim (orElse (q_location q) []) \<noteq> []"
    and "rxnormLookup w c (trim (orElse (q_med q) [])) = (Inr dr, c1)"
    and "truthy (rxcui dr)"
    and "geocodeText w c1 (trim (orElse (q_location q) [])) = (Inr (Some g), c2)"
    and "findPharmacies w (lat g) (lon g) (radiusMeters q)
           = Inl (upstreamError (str ''Pharmacy search failed'') e)"
  shows "search w c q = (send 502 (DetailsBody
           \<lparr>d_status = 502, d_error = str ''Pharmacy search failed'', d_data = None\<rparr>), c2)"
  using assms by (simp add: search_def Let_def sendError_upstream upstream_messages)

lemma search_run:
  assumes "trim (orElse (q_med q) []) \<noteq> []" and "trim (orElse (q_location q) []) \<noteq> []"
    and "rxnormLookup w c (trim (orElse (q_med q) [])) = (Inr dr, c1)"
    and "truthy (rxcui dr)"
    and "geocodeText w c1 (trim (orElse (q_location q) [])) = (Inr (Some g), c2)"
    and "findPharmacies w (lat g) (lon g) (radiusMeters q) = Inr places"
  shows "search w c q = (send 200 (ResultBody
               \<lparr>med_name = name dr, med_rxcui = rxcui dr,
                location_text = trim (orElse (q_location q) []),
                location_lat = lat g, location_lon = lon g,
                total = length (sortItems (sortBy q)
                   (filterItems (priceMin q) (priceMax q) (stockFilter q)
                      (map (enrich w (rxcui dr)) places))),
                items = sortItems (sortBy q)
                   (filterItems (priceMin q) (priceMax q) (stockFilter q)
                      (map (enrich w (rxcui dr)) places))\<rparr>), c2)"
  using assms by (simp add: search_def Let_def)

text \<open>A reply with status 200 comes from the end of the pipeline, and only from there.\<close>

lemma search_ok:
  assumes "search w c q = (r, c')" and "status r = 200"
  shows "\<exists>dr g c1 places.
           trim (orElse (q_med q) []) \<noteq> [] \<and> trim (orElse (q_location q) []) \<noteq> []
         \<and> rxnormLookup w c (trim (orElse (q_med q) [])) = (Inr dr, c1)
         \<and> truthy (rxcui dr)
         \<and> geocodeText w c1 (trim (orElse (q_location q) [])) = (Inr (Some g), c')
         \<and> findPharmacies w (lat g) (lon g) (radiusMeters q) = Inr places
         \<and> r = send 200 (ResultBody
               \<lparr>med_name = name dr, med_rxcui = rxcui dr,
                location_text = trim (orElse (q_location q) []),
                location_lat = lat g, location_lon = lon g,
                total = length (sortItems (sortBy q)
                   (filterItems (priceMin q) (priceMax q) (stockFilter q)
                      (map (enrich w (rxcui dr)) places))),
                items = sortItems (sortBy q)
                   (filterItems (priceMin q) (priceMax q) (stockFilter q)
                      (map (enrich w (rxcui dr)) places))\<rparr>)"
  using assms
  by (auto simp: search_def Let_def send_def sendError_upstream
      split: prod.splits sum.splits option.splits if_splits
      dest!: rxnormLookup_error geocodeText_error findPharmacies_error)

text \<open>
  C9. Every request gets exactly one of eight replies, each for its own cause. In the
  order of the pipeline: 400 with \<open>Missing parameter: med\<close> when the medicine is empty
  after trimming; 400 with \<open>Missing parameter: location\<close> when the medicine is there and
  the location is empty after trimming; 502 with \<open>RxNorm lookup failed\<close> when the
  medicine resolver throws; 400 with \<open>Invalid medicine name\<close> and all the suggestions of
  the resolver's payload when that payload has no identifier; 502 with
  \<open>Geocoding failed\<close> when the geocoder throws; 404 with \<open>Location not found\<close> when the
  geocoder returns \<^verbatim>\<open>null\<close>; 502 with \<open>Pharmacy search failed\<close> when the facility search
  throws; and 200 with the search result made of the resolver's payload, the coordinates
  and the pharmacies, whose total is the number of its items, when nothing fails. An
  upstream failure is never answered with another status than 502. The caches are those
  that the last resolver called has left.
\<close>

theorem search_outcomes:
  fixes w c q
  defines "med \<equiv> trim (orElse (q_med q) [])" and "location \<equiv> trim (orElse (q_location q) [])"
  shows
    "(med = [] \<and> search w c q = (send 400 (ErrorBody (str ''Missing parameter: med'')), c))
   \<or> (med \<noteq> [] \<and> location = []
        \<and> search w c q = (send 400 (ErrorBody (str ''Missing parameter: location'')), c))
   \<or> (med \<noteq> [] \<and> location \<noteq> []
        \<and> (\<exists>e c1. rxnormLookup w c med = (Inl (upstreamError (str ''RxNorm lookup failed'') e), c1)
              \<and> search w c q = (send 502 (DetailsBody
                   \<lparr>d_status = 502, d_error = str ''RxNorm lookup failed'', d_data = None\<rparr>), c1)))
   \<or> (med \<noteq> [] \<and> location \<noteq> []
        \<and> (\<exists>dr c1. rxnormLookup w c med = (Inr dr, c1) \<and> \<not> truthy (rxcui dr)
              \<and> search w c q
                  = (send 400 (SuggestionsBody (str ''Invalid medicine name'') (suggestions dr)), c1)))
   \<or> (med \<noteq> [] \<and> location \<noteq> []
        \<and> (\<exists>dr c1 e c2. rxnormLookup w c med = (Inr dr, c1) \<and> truthy (rxcui dr)
              \<and> geocodeText w c1 location = (Inl (upstreamError (str ''Geocoding failed'') e), c2)
              \<and> search w c q = (send 502 (DetailsBody
                   \<lparr>d_status = 502, d_error = str ''Geocoding failed'', d_data = None\<rparr>), c2)))
   \<or> (med \<noteq> [] \<and> location \<noteq> []
        \<and> (\<exists>dr c1 c2. rxnormLookup w c med = (Inr dr, c1) \<and> truthy (rxcui dr)
              \<and> geocodeText w c1 location = (Inr None, c2)
              \<and> search w c q = (send 404 (ErrorBody (str ''Location not found'')), c2)))
   \<or> (med \<noteq> [] \<and> location \<noteq> []
        \<and> (\<exists>dr c1 g c2 e. rxnormLookup w c med = (Inr dr, c1) \<and> truthy (rxcui dr)
              \<and> geocodeText w c1 location = (Inr (Some g), c2)
              \<and> findPharmacies w (lat g) (lon g) (radiusMeters q)
                  = Inl (upstreamError (str ''Pharmacy search failed'') e)
              \<and> search w c q = (send 502 (DetailsBody
                   \<lparr>d_status = 502, d_error = str ''Pharmacy search failed'', d_data = None\<rparr>), c2)))
   \<or> (med \<noteq> [] \<and> location \<noteq> []
        \<and> (\<exists>dr c1 g c2 places its. rxnormLookup w c med = (Inr dr, c1) \<and> truthy (rxcui dr)
              \<and> geocodeText w c1 location = (Inr (Some g), c2)
              \<and> findPharmacies w (lat g) (lon g) (radiusMeters q) = Inr places
              \<and> its = sortItems (sortBy q)
                        (filterItems (priceMin q) (priceMax q) (stockFilter q)
                           (map (enrich w (rxcui dr)) places))
              \<and> search w c q = (send 200 (ResultBody
                   \<lparr>med_name = name dr, med_rxcui = rxcui dr, location_text = location,
                    location_lat = lat g, location_lon = lon g,
                    total = length its, items = its\<rparr>), c2)))"
  (is "?D1 \<or> ?D2 \<or> ?D3 \<or> ?D4 \<or> ?D5 \<or> ?D6 \<or> ?D7 \<or> ?D8")
proof (cases "med = []")
  case True
  then have ?D1
    using search_missing_med [of q w c] by (simp add: med_def)
  then show ?thesis by (rule disjI1)
next
  case med: False
  show ?thesis
  proof (cases "location = []")
    case True
    with med have ?D2
      using search_missing_location [of q w c] by (simp add: med_def location_def)
    then show ?thesis by (intro disjI2 disjI1 | rule disjI1)+
  next
    case loc: False
    note ne = med [unfolded med_def] loc [unfolded location_def]
    obtain r1 c1 where l1: "rxnormLookup w c med = (r1, c1)"
      by (cases "rxnormLookup w c med")
    show ?thesis
    proof (cases r1)
      case (Inl err)
      with l1 rxnormLookup_error [of w c med err c1] obtain e where
        e: "rxnormLookup w c med = (Inl (upstreamError (str ''RxNorm lookup failed'') e), c1)"
        by auto
      have ?D3
        using med loc e search_rxnorm_failed [OF ne e [unfolded med_def]] by blast
      then show ?thesis by blast
    next
      case (Inr dr)
      with l1 have dr: "rxnormLookup w c med = (Inr dr, c1)" by simp
      show ?thesis
      proof (cases "truthy (rxcui dr)")
        case False
        have ?D4
          using med loc dr False search_invalid_medicine [OF ne dr [unfolded med_def] False]
          by blast
        then show ?thesis by blast
      next
        case id: True
        obtain r2 c2 where l2: "geocodeText w c1 location = (r2, c2)"
          by (cases "geocodeText w c1 location")
        show ?thesis
        proof (cases r2)
          case (Inl err)
          with l2 geocodeText_error [of w c1 location err c2] obtain e where
            e: "geocodeText w c1 location = (Inl (upstreamError (str ''Geocoding failed'') e), c2)"
            by auto
          have ?D5
            using med loc dr id e
              search_geocode_failed [OF ne dr [unfolded med_def] id e [unfolded location_def]]
            by blast
          then show ?thesis by blast
        next
          case (Inr go)
          show ?thesis
          proof (cases go)
            case None
            with Inr l2 have g: "geocodeText w c1 location = (Inr None, c2)" by simp
            have ?D6
              using med loc dr id g
                search_not_found [OF ne dr [unfolded med_def] id g [unfolded location_def]]
              by blast
            then show ?thesis by blast
          next
            case (Some g)
            with Inr l2 have g: "geocodeText w c1 location = (Inr (Some g), c2)" by simp
            show ?thesis
            proof (cases "findPharmacies w (lat g) (lon g) (radiusMeters q)")
              case (Inl err)
              with findPharmacies_error [of w "lat g" "lon g" "radiusMeters q" err] obtain e where
                e: "findPharmacies w (lat g) (lon g) (radiusMeters q)
                      = Inl (upstreamError (str ''Pharmacy search failed'') e)"
                by auto
              have ?D7
                using med loc dr id g e
                  search_pharmacies_failed [OF ne dr [unfolded med_def] id g [unfolded location_def] e]
                by blast
              then show ?thesis by blast
            next
              case places: (Inr places)
              have ?D8
                using med loc dr id g places
                  search_run [OF ne dr [unfolded med_def] id g [unfolded location_def] places]
                unfolding location_def by blast
              then show ?thesis by blast
            qed
          qed
        qed
      qed
    qed
  qed
qed

section \<open>The handler: the radius\<close>

text \<open>
  \<^verbatim>\<open>Math.max(1000, Math.min(50000, radiusKm * 1000))\<close> is within the two bounds for every
  number but NaN, which \<^verbatim>\<open>Math.min\<close> and \<^verbatim>\<open>Math.max\<close> hand on.
\<close>

lemma Math_clamp:
  assumes "x \<noteq> NaN"
  shows "js_le (Fin 1000) (Math_max (Fin 1000) (Math_min (Fin 50000) x))
       \<and> js_le (Math_max (Fin 1000) (Math_min (Fin 50000) x)) (Fin 50000)"
  using assms by (cases x) (auto simp: Math_max_def Math_min_def)

lemma js_mul_NaN: "(js_mul x (Fin 1000) = NaN) = (x = NaN)"
  by (cases x) auto

lemma radiusMeters_in_range:
  assumes "radiusKm q \<noteq> NaN"
  shows "js_le (Fin 1000) (radiusMeters q) \<and> js_le (radiusMeters q) (Fin 50000)"
  unfolding radiusMeters_def using assms by (intro Math_clamp) (simp add: js_mul_NaN)

lemma radiusMeters_examples:
  "radiusMeters (demo_query\<lparr>q_radius_km := Some (str ''0'')\<rparr>) = Fin 1000"
  "radiusMeters (demo_query\<lparr>q_radius_km := Some (str ''1000'')\<rparr>) = Fin 50000"
  "radiusMeters demo_query = Fin 10000"
  "radiusMeters (demo_query\<lparr>q_radius_km := Some (str ''2.5'')\<rparr>) = Fin 2500"
  by (simp_all add: demo_defs number_defs)

text \<open>
  C5. The claim: the metres handed to the facility search are within \<open>[1000, 50000]\<close> for
  every value of \<^verbatim>\<open>radius_km\<close>. The source at \<^verbatim>\<open>radius_km=abc\<close>: \<^verbatim>\<open>Number("abc")\<close> is
  NaN, the product is NaN, and the clamp returns NaN, which is within no bounds.
\<close>

theorem radiusMeters_not_a_number:
  "radiusKm (demo_query\<lparr>q_radius_km := Some (str ''abc'')\<rparr>) = NaN
   \<and> radiusMeters (demo_query\<lparr>q_radius_km := Some (str ''abc'')\<rparr>) = NaN
   \<and> \<not> js_le (Fin 1000) (radiusMeters (demo_query\<lparr>q_radius_km := Some (str ''abc'')\<rparr>))
   \<and> \<not> js_le (radiusMeters (demo_query\<lparr>q_radius_km := Some (str ''abc'')\<rparr>)) (Fin 50000)"
  by (simp add: demo_defs number_defs)

text \<open>
  The NaN reaches the provider: one that rejects a radius outside the bounds rejects this
  request, and the handler answers 502.
\<close>

lemma radius_NaN_upstream:
  "fst (search
         (demo_world\<lparr>overpass := (\<lambda>la lo r.
            if js_le (Fin 1000) r \<and> js_le r (Fin 50000) then Inr (Some [])
            else Inl (JsError (str ''radius out of range'') None None))\<rparr>)
         empty_cache (demo_query\<lparr>q_radius_km := Some (str ''abc'')\<rparr>))
     = send 502 (DetailsBody \<lparr>d_status = 502, d_error = str ''Pharmacy search failed'',
                              d_data = None\<rparr>)"
  by (simp add: demo_defs number_defs sendError_def extractError_def upstreamError_def)

section \<open>The handler: filters\<close>

lemma set_filterItems:
  "set (filterItems pmin pmax stock its)
     = {i \<in> set its.
          (case pmin of None \<Rightarrow> True | Some m \<Rightarrow> js_ge (price_usd i) m)
        \<and> (case pmax of None \<Rightarrow> True | Some m \<Rightarrow> js_le (price_usd i) m)
        \<and> (if stock = str ''in_stock'' \<or> stock = str ''low_stock''
             then availability i = stock else True)}"
proof -
  have "str ''in_stock'' \<noteq> str ''low_stock''" by (simp add: str_def)
  then show ?thesis
    by (auto simp: filterItems_def Let_def split: option.splits)
qed

lemma js_le_NaN: "js_le a NaN = False"
  by (cases a) simp_all

lemma filterItems_NaN:
  "pmin = Some NaN \<or> pmax = Some NaN \<Longrightarrow> filterItems pmin pmax stock its = []"
  by (auto simp: filterItems_def Let_def js_ge_def js_le_NaN split: option.splits)

text \<open>
  The items of the default request in the first example world, in the distance order.
\<close>

lemma demo_default_items:
  "map (\<lambda>i. (place_id i, price_usd i, availability i))
       (reply_items (fst (search demo_world empty_cache demo_query)))
     = [(JStr (str ''n1''), Fin (2659 / 100), str ''in_stock''),
        (JStr (str ''d0''), Fin (687 / 25), str ''in_stock''),
        (JStr (str ''c0''), Fin (2717 / 100), str ''low_stock''),
        (JStr (str ''bA''), Fin (2703 / 100), str ''out_of_stock'')]"
  by (simp add: demo_defs number_defs)

text \<open>
  C6. For every request answered with 200: when \<^verbatim>\<open>price_min\<close> is given (a non-empty
  parameter, read by \<^verbatim>\<open>Number\<close>), every returned item has \<open>priceMin \<le> price_usd\<close>; when
  \<^verbatim>\<open>price_max\<close> is given, every returned item has \<open>price_usd \<le> priceMax\<close>; and the total
  of the reply is the number of its items.
\<close>

theorem search_price_bounds:
  assumes "search w c q = (r, c')" and "status r = 200"
  shows "(\<forall>m. priceMin q = Some m \<longrightarrow> (\<forall>i\<in>set (reply_items r). js_le m (price_usd i)))
       \<and> (\<forall>m. priceMax q = Some m \<longrightarrow> (\<forall>i\<in>set (reply_items r). js_le (price_usd i) m))
       \<and> reply_total r = Some (length (reply_items r))"
proof -
  from search_ok [OF assms] obtain dr :: drug and g :: geo and places where
    r0: "r = send 200 (ResultBody
               \<lparr>med_name = name dr, med_rxcui = rxcui dr,
                location_text = trim (orElse (q_location q) []),
                location_lat = lat g, location_lon = lon g,
                total = length (sortItems (sortBy q)
                   (filterItems (priceMin q) (priceMax q) (stockFilter q)
                      (map (enrich w (rxcui dr)) places))),
                items = sortItems (sortBy q)
                   (filterItems (priceMin q) (priceMax q) (stockFilter q)
                      (map (enrich w (rxcui dr)) places))\<rparr>)"
    by blast
  then obtain res where
    r: "r = send 200 (ResultBody res)"
    and its: "items res = sortItems (sortBy q)
       (filterItems (priceMin q) (priceMax q) (stockFilter q) (map (enrich w (rxcui dr)) places))"
    and tot: "total res = length (items res)"
    by simp
  have "set (reply_items r)
      \<subseteq> {i. (case priceMin q of None \<Rightarrow> True | Some m \<Rightarrow> js_ge (price_usd i) m)
           \<and> (case priceMax q of None \<Rightarrow> True | Some m \<Rightarrow> js_le (price_usd i) m)}"
    unfolding r reply_items_send its set_sortItems set_filterItems by blast
  then show ?thesis
    by (auto simp: r reply_items_send reply_total_send tot js_ge_def)
qed

text \<open>
  In the example world, with \<^verbatim>\<open>price_min=26.5\<close> and \<^verbatim>\<open>price_max=27.1\<close>: two of the four
  pharmacies are returned, at 26.59 and 27.03.
\<close>

theorem search_price_bounds_witness:
  "status (fst (search demo_world empty_cache
       (demo_query\<lparr>q_price_min := Some (str ''26.5''), q_price_max := Some (str ''27.1'')\<rparr>))) = 200
   \<and> priceMin (demo_query\<lparr>q_price_min := Some (str ''26.5''), q_price_max := Some (str ''27.1'')\<rparr>)
       = Some (Fin (53 / 2))
   \<and> priceMax (demo_query\<lparr>q_price_min := Some (str ''26.5''), q_price_max := Some (str ''27.1'')\<rparr>)
       = Some (Fin (271 / 10))
   \<and> map price_usd (reply_items (fst (search demo_world empty_cache
       (demo_query\<lparr>q_price_min := Some (str ''26.5''), q_price_max := Some (str ''27.1'')\<rparr>))))
       = [Fin (2659 / 100), Fin (2703 / 100)]
   \<and> reply_total (fst (search demo_world empty_cache
       (demo_query\<lparr>q_price_min := Some (str ''26.5''), q_price_max := Some (str ''27.1'')\<rparr>))) = Some 2"
proof -
  define q where "q = demo_query\<lparr>q_price_min := Some (str ''26.5''), q_price_max := Some (str ''27.1'')\<rparr>"
  define r where "r = fst (search demo_world empty_cache q)"
  have run: "search demo_world empty_cache q = (r, snd (search demo_world empty_cache q))"
    by (simp add: r_def)
  have st: "status r = 200"
    by (simp add: r_def q_def demo_defs)
  have pm: "priceMin q = Some (Fin (53 / 2))" "priceMax q = Some (Fin (271 / 10))"
    by (simp_all add: q_def demo_defs number_defs)
  have its: "map price_usd (reply_items r) = [Fin (2659 / 100), Fin (2703 / 100)]"
    by (simp add: r_def q_def demo_defs number_defs)
  from search_price_bounds [OF run st]
  have "reply_total r = Some (length (reply_items r))"
    by simp
  also have "length (reply_items r) = length (map price_usd (reply_items r))"
    by simp
  finally have "reply_total r = Some 2"
    unfolding its by simp
  then show ?thesis
    using st pm its unfolding r_def q_def by simp
qed

text \<open>
  C7. For every request answered with 200: when the stock filter is \<open>in_stock\<close> or
  \<open>low_stock\<close>, the availability of every returned item is the filter; for \<open>any\<close> and
  every other value, the returned items are all the enriched pharmacies of the facility
  search that pass the price bounds, so none is left out for its availability.
\<close>

theorem search_stock_filter:
  assumes "search w c q = (r, c')" and "status r = 200"
    and "rxnormLookup w c (trim (orElse (q_med q) [])) = (Inr dr, c1)"
    and "geocodeText w c1 (trim (orElse (q_location q) [])) = (Inr (Some g), c2)"
    and "findPharmacies w (lat g) (lon g) (radiusMeters q) = Inr places"
  shows "(stockFilter q = str ''in_stock'' \<or> stockFilter q = str ''low_stock''
            \<longrightarrow> (\<forall>i\<in>set (reply_items r). availability i = stockFilter q))
       \<and> (stockFilter q \<noteq> str ''in_stock'' \<and> stockFilter q \<noteq> str ''low_stock''
            \<longrightarrow> reply_items r = sortItems (sortBy q)
                  (filter (\<lambda>i. (case priceMin q of None \<Rightarrow> True | Some m \<Rightarrow> js_ge (price_usd i) m)
                            \<and> (case priceMax q of None \<Rightarrow> True | Some m \<Rightarrow> js_le (price_usd i) m))
                     (map (enrich w (rxcui dr)) places)))"
proof -
  from search_ok [OF assms(1,2)] assms(3-5)
  have its: "reply_items r = sortItems (sortBy q)
       (filterItems (priceMin q) (priceMax q) (stockFilter q) (map (enrich w (rxcui dr)) places))"
    by (auto simp: reply_items_send)
  have a: "\<forall>i\<in>set (reply_items r). availability i = stockFilter q"
    if "stockFilter q = str ''in_stock'' \<or> stockFilter q = str ''low_stock''"
    using that unfolding its set_sortItems set_filterItems by auto
  have b: "filterItems pmin pmax stock xs
      = filter (\<lambda>i. (case pmin of None \<Rightarrow> True | Some m \<Rightarrow> js_ge (price_usd i) m)
                \<and> (case pmax of None \<Rightarrow> True | Some m \<Rightarrow> js_le (price_usd i) m)) xs"
    if "stock \<noteq> str ''in_stock''" "stock \<noteq> str ''low_stock''" for pmin pmax stock xs
    using that by (auto simp: filterItems_def Let_def split: option.splits intro: filter_cong)
  show ?thesis
    using a b by (simp add: its)
qed

text \<open>
  In the example world, with \<^verbatim>\<open>stock=low_stock\<close>: the one pharmacy with low stock is
  returned.
\<close>

theorem search_stock_filter_witness:
  "status (fst (search demo_world empty_cache (demo_query\<lparr>q_stock := Some (str ''low_stock'')\<rparr>))) = 200
   \<and> stockFilter (demo_query\<lparr>q_stock := Some (str ''low_stock'')\<rparr>) = str ''low_stock''
   \<and> map availability
        (reply_items (fst (search demo_world empty_cache (demo_query\<lparr>q_stock := Some (str ''low_stock'')\<rparr>))))
       = [str ''low_stock'']
   \<and> map place_id
        (reply_items (fst (search demo_world empty_cache (demo_query\<lparr>q_stock := Some (str ''low_stock'')\<rparr>))))
       = [JStr (str ''c0'')]"
proof -
  define q where "q = demo_query\<lparr>q_stock := Some (str ''low_stock'')\<rparr>"
  define r where "r = fst (search demo_world empty_cache q)"
  have run: "search demo_world empty_cache q = (r, snd (search demo_world empty_cache q))"
    by (simp add: r_def)
  have st: "status r = 200"
    by (simp add: r_def q_def demo_defs number_defs)
  have sf: "stockFilter q = str ''low_stock''"
    by (simp add: q_def demo_defs)
  have ids: "map place_id (reply_items r) = [JStr (str ''c0'')]"
    by (simp add: r_def q_def demo_defs number_defs)
  from search_ok [OF run st] obtain dr :: drug and g :: geo and c1 places where
    "rxnormLookup demo_world empty_cache (trim (orElse (q_med q) [])) = (Inr dr, c1)"
    "geocodeText demo_world c1 (trim (orElse (q_location q) []))
       = (Inr (Some g), snd (search demo_world empty_cache q))"
    "findPharmacies demo_world (lat g) (lon g) (radiusMeters q) = Inr places"
    by blast
  from search_stock_filter [OF run st this] sf
  have "\<forall>i\<in>set (reply_items r). availability i = str ''low_stock''"
    by simp
  then have "map availability (reply_items r) = map (\<lambda>i. str ''low_stock'') (reply_items r)"
    by (simp del: str_def)
  also have "\<dots> = map (\<lambda>i. str ''low_stock'') (map place_id (reply_items r))"
    by (simp add: comp_def)
  finally have "map availability (reply_items r) = [str ''low_stock'']"
    unfolding ids by simp
  then show ?thesis
    using st sf ids unfolding r_def q_def by simp
qed

text \<open>
  C10. When \<^verbatim>\<open>price_min\<close> or \<^verbatim>\<open>price_max\<close> is a non-empty string that \<^verbatim>\<open>Number\<close> reads as
  NaN, the bound is NaN and no price passes a comparison with it; and when the same request
  without price bounds is answered with 200, the request is answered with 200 too, with no
  items and total 0: the bound is not ignored, and it is no error.
\<close>

theorem search_nan_bound:
  assumes bound: "q_price_min q = Some s \<or> q_price_max q = Some s"
    and s: "s \<noteq> []" "Number_str s = NaN"
    and base: "search w c (q\<lparr>q_price_min := None, q_price_max := None\<rparr>) = (r0, c0)"
      "status r0 = 200"
  shows "(q_price_min q = Some s \<longrightarrow> priceMin q = Some NaN)
       \<and> (q_price_max q = Some s \<longrightarrow> priceMax q = Some NaN)
       \<and> (\<forall>p. \<not> js_ge p NaN \<and> \<not> js_le p NaN)
       \<and> (\<exists>r. search w c q = (r, c0) \<and> status r = 200
              \<and> reply_items r = [] \<and> reply_total r = Some 0)"
proof -
  let ?q0 = "q\<lparr>q_price_min := None, q_price_max := None\<rparr>"
  have same: "q_med ?q0 = q_med q" "q_location ?q0 = q_location q"
    "radiusMeters ?q0 = radiusMeters q"
    by (simp_all add: radiusMeters_def radiusKm_def)
  from search_ok [OF base] obtain dr :: drug and g :: geo and c1 places where
    run: "trim (orElse (q_med q) []) \<noteq> []" "trim (orElse (q_location q) []) \<noteq> []"
      "rxnormLookup w c (trim (orElse (q_med q) [])) = (Inr dr, c1)"
      "truthy (rxcui dr)"
      "geocodeText w c1 (trim (orElse (q_location q) [])) = (Inr (Some g), c0)"
      "findPharmacies w (lat g) (lon g) (radiusMeters q) = Inr places"
    unfolding same by blast
  have "priceMin q = Some NaN \<or> priceMax q = Some NaN"
    using bound s by (auto simp: priceMin_def priceMax_def priceBound_def)
  then have none: "filterItems (priceMin q) (priceMax q) (stockFilter q)
       (map (enrich w (rxcui dr)) places) = []"
    by (rule filterItems_NaN)
  have "\<exists>r. search w c q = (r, c0) \<and> status r = 200
            \<and> reply_items r = [] \<and> reply_total r = Some 0"
    unfolding search_run [OF run] none sortItems_Nil
    by (simp add: reply_items_send reply_total_send) (simp add: send_def)
  moreover have "\<forall>p. \<not> js_ge p NaN \<and> \<not> js_le p NaN"
    by (simp add: js_ge_def js_le_NaN)
  moreover have "q_price_min q = Some s \<longrightarrow> priceMin q = Some NaN"
    "q_price_max q = Some s \<longrightarrow> priceMax q = Some NaN"
    using s by (simp_all add: priceMin_def priceMax_def priceBound_def)
  ultimately show ?thesis by blast
qed

text \<open>
  In the example world, with \<^verbatim>\<open>price_min=cheap\<close>: the request without the bound returns
  four pharmacies; with it, none, and still status 200.
\<close>

theorem search_nan_bound_witness:
  "Number_str (str ''cheap'') = NaN
   \<and> status (fst (search demo_world empty_cache demo_query)) = 200
   \<and> status (fst (search demo_world empty_cache (demo_query\<lparr>q_price_min := Some (str ''cheap'')\<rparr>))) = 200
   \<and> reply_items (fst (search demo_world empty_cache (demo_query\<lparr>q_price_min := Some (str ''cheap'')\<rparr>))) = []
   \<and> reply_total (fst (search demo_world empty_cache (demo_query\<lparr>q_price_min := Some (str ''cheap'')\<rparr>)))
       = Some 0"
proof -
  define q where "q = demo_query\<lparr>q_price_min := Some (str ''cheap'')\<rparr>"
  have q0: "q\<lparr>q_price_min := None, q_price_max := None\<rparr> = demo_query"
    by (simp add: q_def demo_query_def)
  have nan: "Number_str (str ''cheap'') = NaN"
    by (simp add: number_defs trim_def isWhiteSpace_def str_def Let_def)
  have bound: "q_price_min q = Some (str ''cheap'') \<or> q_price_max q = Some (str ''cheap'')"
    by (simp add: q_def)
  have ne: "str ''cheap'' \<noteq> []"
    by (simp add: str_def)
  have run: "search demo_world empty_cache (q\<lparr>q_price_min := None, q_price_max := None\<rparr>)
      = (fst (search demo_world empty_cache demo_query), snd (search demo_world empty_cache demo_query))"
    by (simp add: q0)
  have st: "status (fst (search demo_world empty_cache demo_query)) = 200"
    by (simp add: demo_defs number_defs)
  from search_nan_bound [OF bound ne nan run st]
  have "status (fst (search demo_world empty_cache q)) = 200
      \<and> reply_items (fst (search demo_world empty_cache q)) = []
      \<and> reply_total (fst (search demo_world empty_cache q)) = Some 0"
    by auto
  then show ?thesis
    using nan st unfolding q_def by simp
qed

section \<open>The handler: the order of the items\<close>

lemma sortBy_distance:
  "(sortBy q = str ''distance'')
     = (q_sort q = None \<or> q_sort q = Some [] \<or> q_sort q = Some (str ''distance''))"
  by (auto simp: sortBy_def orElse_def split: option.splits)

lemma sortBy_price:
  "(sortBy q = str ''price_asc'') = (q_sort q = Some (str ''price_asc''))"
  "(sortBy q = str ''price_desc'') = (q_sort q = Some (str ''price_desc''))"
  by (auto simp: sortBy_def orElse_def str_def split: option.splits)

text \<open>
  C2, as the code has it. The claim has the distance order for every \<^verbatim>\<open>sort\<close> other
  than \<open>price_asc\<close> and \<open>price_desc\<close>. The source sorts by distance only under the guard
  \<^verbatim>\<open>sortBy === 'distance'\<close>, and its comparator orders the items only when no distance
  is NaN. So, for a request answered with 200 whose \<^verbatim>\<open>sort\<close> is neither \<open>price_asc\<close> nor
  \<open>price_desc\<close>: when \<^verbatim>\<open>sort\<close> is absent, empty or \<open>distance\<close>, and the distance of
  every returned item is absent or a finite number, the returned items are the filtered
  items in the distance order (ascending, absent distances last); for every other value
  of \<^verbatim>\<open>sort\<close> they are the filtered items in the order in which the facility search
  returned them.
\<close>

theorem search_sort_fallback:
  assumes "search w c q = (r, c')" and "status r = 200"
    and "rxnormLookup w c (trim (orElse (q_med q) [])) = (Inr dr, c1)"
    and "geocodeText w c1 (trim (orElse (q_location q) [])) = (Inr (Some g), c2)"
    and "findPharmacies w (lat g) (lon g) (radiusMeters q) = Inr places"
    and "q_sort q \<noteq> Some (str ''price_asc'')" and "q_sort q \<noteq> Some (str ''price_desc'')"
  shows "((q_sort q = None \<or> q_sort q = Some [] \<or> q_sort q = Some (str ''distance''))
          \<and> (\<forall>i\<in>set (reply_items r). regular_distance (distance_km i))
            \<longrightarrow> distance_sorted (reply_items r)
              \<and> mset (reply_items r)
                = mset (filterItems (priceMin q) (priceMax q) (stockFilter q)
                          (map (enrich w (rxcui dr)) places)))
       \<and> (\<not> (q_sort q = None \<or> q_sort q = Some [] \<or> q_sort q = Some (str ''distance''))
            \<longrightarrow> reply_items r
                = filterItems (priceMin q) (priceMax q) (stockFilter q)
                    (map (enrich w (rxcui dr)) places))"
proof -
  let ?fs = "filterItems (priceMin q) (priceMax q) (stockFilter q)
               (map (enrich w (rxcui dr)) places)"
  from search_ok [OF assms(1,2)] assms(3-5)
  have its: "reply_items r = sortItems (sortBy q) ?fs"
    by (auto simp: reply_items_send)
  have a: "distance_sorted (reply_items r) \<and> mset (reply_items r) = mset ?fs"
    if srt: "sortBy q = str ''distance''"
      and reg: "\<forall>i\<in>set (reply_items r). regular_distance (distance_km i)"
  proof -
    from reg have "\<forall>i\<in>set ?fs. regular_distance (distance_km i)"
      unfolding its set_sortItems .
    from sortItems_distance [OF this] show ?thesis
      unfolding its srt by (simp add: sortItems_def mset_Array_sort)
  qed
  have b: "reply_items r = ?fs" if "sortBy q \<noteq> str ''distance''"
    using that assms(6,7) by (simp add: its sortItems_def sortBy_price)
  show ?thesis
    using a b unfolding sortBy_distance by blast
qed

text \<open>
  In the first example world, without \<^verbatim>\<open>sort\<close>: every distance is absent or finite, and
  the items come in the distance order.
\<close>

theorem search_sort_fallback_witness:
  "status (fst (search demo_world empty_cache demo_query)) = 200
   \<and> q_sort demo_query = None
   \<and> distance_sorted (reply_items (fst (search demo_world empty_cache demo_query)))
   \<and> map distance_km (reply_items (fst (search demo_world empty_cache demo_query)))
       = [Some (Fin 1), Some (Fin (5 / 2)), Some (Fin 5), None]"
proof -
  define r where "r = fst (search demo_world empty_cache demo_query)"
  have run: "search demo_world empty_cache demo_query = (r, snd (search demo_world empty_cache demo_query))"
    by (simp add: r_def)
  have st: "status r = 200"
    by (simp add: r_def demo_defs number_defs)
  have srt: "q_sort demo_query = None"
    "q_sort demo_query \<noteq> Some (str ''price_asc'')" "q_sort demo_query \<noteq> Some (str ''price_desc'')"
    by (simp_all add: demo_query_def)
  have ds: "map distance_km (reply_items r) = [Some (Fin 1), Some (Fin (5 / 2)), Some (Fin 5), None]"
    unfolding r_def by (rule demo_distances)
  have "\<forall>d\<in>set (map distance_km (reply_items r)). regular_distance d"
    unfolding ds by (simp add: regular_distance_def)
  then have reg: "\<forall>i\<in>set (reply_items r). regular_distance (distance_km i)"
    by simp
  from search_ok [OF run st] obtain dr :: drug and g :: geo and c1 places where
    "rxnormLookup demo_world empty_cache (trim (orElse (q_med demo_query) [])) = (Inr dr, c1)"
    "geocodeText demo_world c1 (trim (orElse (q_location demo_query) []))
       = (Inr (Some g), snd (search demo_world empty_cache demo_query))"
    "findPharmacies demo_world (lat g) (lon g) (radiusMeters demo_query) = Inr places"
    by blast
  from search_sort_fallback [OF run st this srt(2,3)] srt(1) reg
  have "distance_sorted (reply_items r)"
    by blast
  then show ?thesis
    using st srt(1) ds by (simp add: r_def)
qed

text \<open>
  Where the claim fails: \<^verbatim>\<open>sort=nearest\<close> is neither \<open>price_asc\<close> nor \<open>price_desc\<close>, and
  the items come back in the order of the provider, 5 km first and 1 km third, with the
  pharmacy without a distance between them.
\<close>

theorem search_sort_unrecognized:
  "str ''nearest'' \<noteq> str ''price_asc'' \<and> str ''nearest'' \<noteq> str ''price_desc''
   \<and> status (fst (search demo_world empty_cache (demo_query\<lparr>q_sort := Some (str ''nearest'')\<rparr>))) = 200
   \<and> map distance_km
         (reply_items (fst (search demo_world empty_cache (demo_query\<lparr>q_sort := Some (str ''nearest'')\<rparr>))))
       = [Some (Fin 5), None, Some (Fin 1), Some (Fin (5 / 2))]
   \<and> \<not> distance_sorted
         (reply_items (fst (search demo_world empty_cache (demo_query\<lparr>q_sort := Some (str ''nearest'')\<rparr>))))"
  by (simp add: demo_defs number_defs distance_sorted_def distance_le_def)

text \<open>
  C3. The claim: for every request sorted by distance, the items with a distance come
  before the items without one, and the distances present do not decrease. The source,
  with a key set, at a Geoapify feature that has neither a \<^verbatim>\<open>distance\<close> nor coordinates:
  \<^verbatim>\<open>haversineKm\<close> of \<^verbatim>\<open>undefined\<close> coordinates is NaN, and that is the distance of the
  pharmacy, where the Overpass branch puts \<^verbatim>\<open>null\<close>. \<^verbatim>\<open>NaN ?? Infinity\<close> is NaN, so the
  comparator answers NaN for every pair with this pharmacy, which counts as 0, and the
  sort leaves the three pharmacies of the second example world as they came: 5 km, NaN,
  1 km. The request is the default one, sorted by distance and answered with 200; in the
  reply 5 km comes before 1 km, and the distance that is no number, which the JSON of
  the reply prints as \<^verbatim>\<open>null\<close>, comes before 1 km as well.
\<close>

theorem search_distance_unordered:
  "sortBy demo_query = str ''distance''
   \<and> status (fst (search keyed_world empty_cache demo_query)) = 200
   \<and> map place_id (reply_items (fst (search keyed_world empty_cache demo_query)))
       = [JStr (str ''c0''), JStr (str ''bA''), JStr (str ''n1'')]
   \<and> map distance_km (reply_items (fst (search keyed_world empty_cache demo_query)))
       = [Some (Fin 5), Some NaN, Some (Fin 1)]
   \<and> \<not> js_le (Fin 5) (Fin 1)
   \<and> \<not> distance_sorted (reply_items (fst (search keyed_world empty_cache demo_query)))"
  by (simp add: demo_defs number_defs distance_sorted_def distance_le_def)

text \<open>
  The same three features in the other order of the first two, and without the one that
  has no coordinates: the sort does order what it can compare.
\<close>

lemma keyed_regular_sorted:
  "map distance_km (reply_items (fst (search
       (keyed_world\<lparr>geoapify_places := (\<lambda>la lo r.
           Inr (Some
             [Some (feature ''c0'' (JNum (Fin 5000)) (JNum (Fin (4241 / 100))) (JNum (Fin (- 7106 / 100)))),
              Some (feature ''n1'' (JNum (Fin 1000)) (JNum (Fin (4237 / 100))) (JNum (Fin (- 7106 / 100))))]))\<rparr>)
       empty_cache demo_query)))
     = [Some (Fin 1), Some (Fin 5)]"
  by (simp add: demo_defs number_defs)

end
